theory Spec2Isabelle
  imports Main "HOL-Library.Sublist"
begin

section \<open>Go values as they are held in interface variables\<close>

text \<open>
  The assertion helpers of \<^verbatim>\<open>assert.go\<close> receive their operands as \<^verbatim>\<open>interface{}\<close>.
  An interface value is either nil or a dynamic type together with a value of it. The
  fragment modelled here has booleans, integers, strings, slices (nil or not), pointers
  (nil or an address together with the value stored there) and structs of a named type.
  Values are finite trees: a pointer carries the value it points to, so cyclic data is
  outside the fragment. Struct fields and slice elements are of the concrete type of the
  value they hold.
\<close>

datatype gotype = TBool | TInt | TString | TSlice gotype | TPtr gotype | TStruct string

datatype val =
    VNil
  | VBool bool
  | VInt int
  | VString string
  | VNilSlice gotype
  | VSlice gotype "val list"
  | VNilPtr gotype
  | VPtr gotype nat val
  | VStruct string "val list"

text \<open>The dynamic type of an interface value; \<open>None\<close> for the nil interface.\<close>

fun dyn_type :: "val \<Rightarrow> gotype option" where
  "dyn_type VNil = None"
| "dyn_type (VBool b) = Some TBool"
| "dyn_type (VInt i) = Some TInt"
| "dyn_type (VString s) = Some TString"
| "dyn_type (VNilSlice T) = Some (TSlice T)"
| "dyn_type (VSlice T xs) = Some (TSlice T)"
| "dyn_type (VNilPtr T) = Some (TPtr T)"
| "dyn_type (VPtr T a v) = Some (TPtr T)"
| "dyn_type (VStruct n fs) = Some (TStruct n)"

subsection \<open>reflect.DeepEqual\<close>

text \<open>
  The standard library's \<^verbatim>\<open>reflect.DeepEqual\<close>, on the fragment: after the nil and type
  checks of \<^verbatim>\<open>DeepEqual\<close> itself, \<^verbatim>\<open>deepValueEqual\<close> compares slices element by element
  (a nil slice is not deeply equal to an empty one), pointers by address or else by the
  values they point to, structs field by field, and everything else by \<^verbatim>\<open>==\<close>.
\<close>

fun deepValueEqual :: "val \<Rightarrow> val \<Rightarrow> bool"
  and deepValueEqual_list :: "val list \<Rightarrow> val list \<Rightarrow> bool" where
  "deepValueEqual VNil b = (b = VNil)"
| "deepValueEqual (VBool x) b = (b = VBool x)"
| "deepValueEqual (VInt x) b = (b = VInt x)"
| "deepValueEqual (VString x) b = (b = VString x)"
| "deepValueEqual (VNilSlice T) b = (b = VNilSlice T)"
| "deepValueEqual (VSlice T xs) b =
     (case b of VSlice U ys \<Rightarrow> T = U \<and> deepValueEqual_list xs ys | _ \<Rightarrow> False)"
| "deepValueEqual (VNilPtr T) b = (b = VNilPtr T)"
| "deepValueEqual (VPtr T p x) b =
     (case b of VPtr U q y \<Rightarrow> T = U \<and> (p = q \<or> deepValueEqual x y) | _ \<Rightarrow> False)"
| "deepValueEqual (VStruct n xs) b =
     (case b of VStruct m ys \<Rightarrow> n = m \<and> deepValueEqual_list xs ys | _ \<Rightarrow> False)"
| "deepValueEqual_list [] ys = (ys = [])"
| "deepValueEqual_list (x # xs) ys =
     (case ys of [] \<Rightarrow> False | y # ys' \<Rightarrow> deepValueEqual x y \<and> deepValueEqual_list xs ys')"

definition DeepEqual :: "val \<Rightarrow> val \<Rightarrow> bool" where
  "DeepEqual x y =
     (if x = VNil \<or> y = VNil then x = y
      else if dyn_type x \<noteq> dyn_type y then False
      else deepValueEqual x y)"

subsection \<open>Comparison of interface values with == and !=\<close>

text \<open>
  The language's \<^verbatim>\<open>==\<close> on two interface values: equal when both are nil or when the
  dynamic types are identical and the dynamic values are equal. When the dynamic types
  are identical and that type is not comparable (a slice, or a struct with such a
  field), the comparison panics at run time. Pointers are equal when they hold the same
  address; structs when their fields are.
\<close>

datatype panic = Panic string

fun comparable :: "val \<Rightarrow> bool" where
  "comparable (VNilSlice T) = False"
| "comparable (VSlice T xs) = False"
| "comparable (VStruct n fs) = list_all comparable fs"
| "comparable v = True"

fun val_eq :: "val \<Rightarrow> val \<Rightarrow> bool" where
  "val_eq (VPtr T p x) b = (case b of VPtr U q y \<Rightarrow> p = q | _ \<Rightarrow> False)"
| "val_eq (VStruct n xs) b =
     (case b of VStruct m ys \<Rightarrow> n = m \<and> list_all2 val_eq xs ys | _ \<Rightarrow> False)"
| "val_eq a b = (a = b)"

definition iface_eq :: "val \<Rightarrow> val \<Rightarrow> panic + bool" where
  "iface_eq a b =
     (if a = VNil \<or> b = VNil then Inr (a = b)
      else if dyn_type a \<noteq> dyn_type b then Inr False
      else if \<not> comparable a
        then Inl (Panic ''runtime error: comparing uncomparable type'')
      else Inr (val_eq a b))"

section \<open>The host: testing.T, standard output, the call stack\<close>

text \<open>
  A \<^verbatim>\<open>*testing.T\<close> is a handle into a store of test contexts; the handles that occur
  are those of live tests. A context records whether the test was marked failed and
  whether \<^verbatim>\<open>FailNow\<close> finished it. Standard output is the list of \<^verbatim>\<open>fmt.Printf\<close> calls
  made so far, each with its format string and arguments: the bytes written are a
  function of these.
\<close>

type_synonym handle = nat

record testing_T =
  failed :: bool
  finished :: bool

datatype arg =
    ArgVal val
  | ArgStr string
  | ArgInt int
  | ArgStrs "string list"
  | ArgSprintf string "arg list"

datatype printed = Printf string "arg list"

record world =
  ts :: "handle \<Rightarrow> testing_T"
  stdout :: "printed list"

text \<open>
  A statement returns, or ends its goroutine through \<^verbatim>\<open>runtime.Goexit\<close> (this is how
  \<^verbatim>\<open>FailNow\<close> stops a test), or panics.
\<close>

datatype 's outcome = Return 's | Goexit 's | Panics panic

definition and_then :: "'s outcome \<Rightarrow> ('s \<Rightarrow> 's outcome) \<Rightarrow> 's outcome" where
  "and_then r k = (case r of Return s \<Rightarrow> k s | Goexit s \<Rightarrow> Goexit s | Panics p \<Rightarrow> Panics p)"

definition t_Fail :: "handle \<Rightarrow> 'a world_scheme \<Rightarrow> 'a world_scheme" where
  "t_Fail t s = s\<lparr>ts := (ts s)(t := (ts s t)\<lparr>failed := True\<rparr>)\<rparr>"

definition t_FailNow :: "handle \<Rightarrow> 'a world_scheme \<Rightarrow> 'a world_scheme outcome" where
  "t_FailNow t s =
     (let s1 = t_Fail t s;
          s2 = s1\<lparr>ts := (ts s1)(t := (ts s1 t)\<lparr>finished := True\<rparr>)\<rparr>
      in Goexit s2)"

definition fmt_Printf :: "string \<Rightarrow> arg list \<Rightarrow> 'a world_scheme \<Rightarrow> 'a world_scheme" where
  "fmt_Printf format args s = s\<lparr>stdout := stdout s @ [Printf format args]\<rparr>"

text \<open>
  The call stack is a list of call sites (file, line), innermost first: the head is the
  place where the running function was called. \<^verbatim>\<open>runtime.Caller(skip)\<close> is asked from a
  line of the running function; skip 0 is that line, skip 1 the site that called the
  running function, and so on. Past the end of the stack it returns the zero values.
\<close>

type_synonym site = "string \<times> int"

definition runtime_Caller :: "nat \<Rightarrow> site list \<Rightarrow> site" where
  "runtime_Caller skip frames = (if skip < length frames then frames ! skip else ('''', 0))"

text \<open>\<^verbatim>\<open>strings.LastIndex\<close>: the index of the last occurrence of \<open>sep\<close>, or -1.\<close>

fun last_index_from :: "nat \<Rightarrow> string \<Rightarrow> string \<Rightarrow> int" where
  "last_index_from 0 s sep = (if take (length sep) s = sep then 0 else - 1)"
| "last_index_from (Suc i) s sep =
     (if take (length sep) (drop (Suc i) s) = sep then int (Suc i)
      else last_index_from i s sep)"

definition strings_LastIndex :: "string \<Rightarrow> string \<Rightarrow> int" where
  "strings_LastIndex s sep =
     (if length s < length sep then - 1 else last_index_from (length s - length sep) s sep)"

text \<open>\<^verbatim>\<open>strings.Contains\<close>: \<open>needle\<close> occurs in \<open>haystack\<close> as a contiguous run.\<close>

fun strings_Contains :: "string \<Rightarrow> string \<Rightarrow> bool" where
  "strings_Contains [] needle = (needle = [])"
| "strings_Contains (c # cs) needle =
     (take (length needle) (c # cs) = needle \<or> strings_Contains cs needle)"

text \<open>
  The slice expression \<^verbatim>\<open>s[i:]\<close> panics unless \<open>0 \<le> i \<le> len(s)\<close>. The helpers use it
  as \<^verbatim>\<open>file[strings.LastIndex(file, "/")+1:]\<close>.
\<close>

definition slice_from :: "string \<Rightarrow> int \<Rightarrow> panic + string" where
  "slice_from s i =
     (if 0 \<le> i \<and> i \<le> int (length s) then Inr (drop (nat i) s)
      else Inl (Panic ''runtime error: slice bounds out of range''))"

definition base_name :: "string \<Rightarrow> panic + string" where
  "base_name file = slice_from file (strings_LastIndex file ''/'' + 1)"

section \<open>The assertion helpers\<close>

text \<open>
  Every helper takes, as \<open>stk\<close>, the call stack at its entry, and hands it on, extended by
  the line of the call, to the function it calls. Call sites inside the package carry
  the path under which the compiler recorded \<^verbatim>\<open>assert.go\<close>.
\<close>

definition assert_go :: string where
  "assert_go = ''fortio.org/assert/assert.go''"

definition ObjectsAreEqualValues :: "val \<Rightarrow> val \<Rightarrow> bool" where
  "ObjectsAreEqualValues a b = DeepEqual a b"

definition Errorf ::
  "handle \<Rightarrow> string \<Rightarrow> arg list \<Rightarrow> site list \<Rightarrow> 'a world_scheme \<Rightarrow> 'a world_scheme outcome" where
  "Errorf t format rest stk s =
     (let (file, line) = runtime_Caller 2 ((assert_go, 22) # stk) in
        case base_name file of
          Inl p \<Rightarrow> Panics p
        | Inr file \<Rightarrow>
            (let s1 = fmt_Printf ''%s:%d %s''
                        [ArgStr file, ArgInt line, ArgSprintf format rest] s
             in Return (t_Fail t s1)))"

definition NotEqual ::
  "handle \<Rightarrow> val \<Rightarrow> val \<Rightarrow> string list \<Rightarrow> site list \<Rightarrow> 'a world_scheme \<Rightarrow> 'a world_scheme outcome" where
  "NotEqual t a b msg stk s =
     (if ObjectsAreEqualValues a b
      then Errorf t ''%v unexpectedly equal: %v'' [ArgVal a, ArgStrs msg] ((assert_go, 31) # stk) s
      else Return s)"

definition EqualValues ::
  "handle \<Rightarrow> val \<Rightarrow> val \<Rightarrow> string list \<Rightarrow> site list \<Rightarrow> 'a world_scheme \<Rightarrow> 'a world_scheme outcome" where
  "EqualValues t a b msg stk s =
     (if \<not> ObjectsAreEqualValues a b
      then Errorf t ''%v unexpectedly not equal %v: %v'' [ArgVal a, ArgVal b, ArgStrs msg]
             ((assert_go, 38) # stk) s
      else Return s)"

definition Equal ::
  "handle \<Rightarrow> val \<Rightarrow> val \<Rightarrow> string list \<Rightarrow> site list \<Rightarrow> 'a world_scheme \<Rightarrow> 'a world_scheme outcome" where
  "Equal t a b msg stk s = EqualValues t a b msg ((assert_go, 44) # stk) s"

definition NoError ::
  "handle \<Rightarrow> val \<Rightarrow> string list \<Rightarrow> site list \<Rightarrow> 'a world_scheme \<Rightarrow> 'a world_scheme outcome" where
  "NoError t err msg stk s =
     (if err \<noteq> VNil
      then Errorf t ''expecting no error, got %v: %v'' [ArgVal err, ArgStrs msg]
             ((assert_go, 50) # stk) s
      else Return s)"

definition Error ::
  "handle \<Rightarrow> val \<Rightarrow> string list \<Rightarrow> site list \<Rightarrow> 'a world_scheme \<Rightarrow> 'a world_scheme outcome" where
  "Error t err msg stk s =
     (if err = VNil
      then Errorf t ''expecting an error, didn't get it: %v'' [ArgStrs msg]
             ((assert_go, 57) # stk) s
      else Return s)"

definition True_check ::
  "handle \<Rightarrow> bool \<Rightarrow> string list \<Rightarrow> site list \<Rightarrow> 'a world_scheme \<Rightarrow> 'a world_scheme outcome" where
  "True_check t b msg stk s =
     (if \<not> b
      then Errorf t ''expecting true, didn't: %v'' [ArgStrs msg] ((assert_go, 64) # stk) s
      else Return s)"

definition False_check ::
  "handle \<Rightarrow> bool \<Rightarrow> string list \<Rightarrow> site list \<Rightarrow> 'a world_scheme \<Rightarrow> 'a world_scheme outcome" where
  "False_check t b msg stk s =
     (if b
      then Errorf t ''expecting false, didn't: %v'' [ArgStrs msg] ((assert_go, 71) # stk) s
      else Return s)"

definition Contains ::
  "handle \<Rightarrow> string \<Rightarrow> string \<Rightarrow> string list \<Rightarrow> site list \<Rightarrow> 'a world_scheme
     \<Rightarrow> 'a world_scheme outcome" where
  "Contains t haystack needle msg stk s =
     (if \<not> strings_Contains haystack needle
      then Errorf t ''%v doesn't contain %v: %v'' [ArgStr haystack, ArgStr needle, ArgStrs msg]
             ((assert_go, 78) # stk) s
      else Return s)"

definition Fail :: "handle \<Rightarrow> string \<Rightarrow> site list \<Rightarrow> 'a world_scheme \<Rightarrow> 'a world_scheme outcome" where
  "Fail t msg stk s =
     (let (file, line) = runtime_Caller 1 ((assert_go, 84) # stk) in
        case base_name file of
          Inl p \<Rightarrow> Panics p
        | Inr file \<Rightarrow>
            (let s1 = fmt_Printf ''%s:%d %s\<newline>'' [ArgStr file, ArgInt line, ArgStr msg] s
             in t_FailNow t s1))"

definition CheckEquals ::
  "handle \<Rightarrow> val \<Rightarrow> val \<Rightarrow> val \<Rightarrow> site list \<Rightarrow> 'a world_scheme \<Rightarrow> 'a world_scheme outcome" where
  "CheckEquals t actual expected msg stk s =
     (case iface_eq expected actual of
        Inl p \<Rightarrow> Panics p
      | Inr same \<Rightarrow>
          if \<not> same then
            (let (file, line) = runtime_Caller 1 ((assert_go, 94) # stk) in
               case base_name file of
                 Inl p \<Rightarrow> Panics p
               | Inr file \<Rightarrow>
                   (let s1 = fmt_Printf
                        ''%s:%d mismatch!\<newline>actual:\<newline>%+v\<newline>expected:\<newline>%+v\<newline>for %+v\<newline>''
                        [ArgStr file, ArgInt line, ArgVal actual, ArgVal expected, ArgVal msg] s
                    in Return (t_Fail t s1)))
          else Return s)"

definition Assert :: "handle \<Rightarrow> bool \<Rightarrow> val \<Rightarrow> site list \<Rightarrow> 'a world_scheme \<Rightarrow> 'a world_scheme outcome" where
  "Assert t cond msg stk s =
     (if \<not> cond then
        (let (file, line) = runtime_Caller 1 ((assert_go, 105) # stk) in
           case base_name file of
             Inl p \<Rightarrow> Panics p
           | Inr file \<Rightarrow>
               (let s1 = fmt_Printf ''%s:%d assert failure: %+v\<newline>''
                           [ArgStr file, ArgInt line, ArgVal msg] s
                in Return (t_Fail t s1)))
      else Return s)"

section \<open>The helpers on any pointer to a test context\<close>

text \<open>
  The helpers above are written for the handle of a running test, which is what a test
  body holds. As a Go type, \<^verbatim>\<open>*testing.T\<close> also has the value nil, and a pointer can
  outlive its test. On a nil pointer \<^verbatim>\<open>t.Fail()\<close> and \<^verbatim>\<open>t.FailNow()\<close> panic with a nil
  dereference; on the context of a test that has completed, \<^verbatim>\<open>Fail\<close> panics with "Fail in
  goroutine after ... has completed". Whether a test is running does not change while a
  helper runs, so it is part of the pointer here.
\<close>

datatype T_ptr = NilT | RunningT handle | CompletedT handle

definition is_running :: "T_ptr \<Rightarrow> bool" where
  "is_running p = (case p of NilT \<Rightarrow> False | RunningT h \<Rightarrow> True | CompletedT h \<Rightarrow> False)"

definition ptr_Fail :: "T_ptr \<Rightarrow> 'a world_scheme \<Rightarrow> 'a world_scheme outcome" where
  "ptr_Fail p s =
     (case p of
        NilT \<Rightarrow> Panics (Panic ''runtime error: invalid memory address or nil pointer dereference'')
      | RunningT h \<Rightarrow> Return (t_Fail h s)
      | CompletedT h \<Rightarrow> Panics (Panic ''Fail in goroutine after test has completed''))"

definition ptr_FailNow :: "T_ptr \<Rightarrow> 'a world_scheme \<Rightarrow> 'a world_scheme outcome" where
  "ptr_FailNow p s =
     (case p of
        NilT \<Rightarrow> Panics (Panic ''runtime error: invalid memory address or nil pointer dereference'')
      | RunningT h \<Rightarrow> t_FailNow h s
      | CompletedT h \<Rightarrow> Panics (Panic ''Fail in goroutine after test has completed''))"

text \<open>
  The same functions of \<^verbatim>\<open>assert.go\<close>, line by line, with the pointer as the type admits
  it. On the pointer to a running test each of them is the helper above.
\<close>

definition Errorf_at ::
  "T_ptr \<Rightarrow> string \<Rightarrow> arg list \<Rightarrow> site list \<Rightarrow> 'a world_scheme \<Rightarrow> 'a world_scheme outcome" where
  "Errorf_at t format rest stk s =
     (let (file, line) = runtime_Caller 2 ((assert_go, 22) # stk) in
        case base_name file of
          Inl p \<Rightarrow> Panics p
        | Inr file \<Rightarrow>
            (let s1 = fmt_Printf ''%s:%d %s''
                        [ArgStr file, ArgInt line, ArgSprintf format rest] s
             in ptr_Fail t s1))"

definition NotEqual_at ::
  "T_ptr \<Rightarrow> val \<Rightarrow> val \<Rightarrow> string list \<Rightarrow> site list \<Rightarrow> 'a world_scheme \<Rightarrow> 'a world_scheme outcome" where
  "NotEqual_at t a b msg stk s =
     (if ObjectsAreEqualValues a b
      then Errorf_at t ''%v unexpectedly equal: %v'' [ArgVal a, ArgStrs msg]
             ((assert_go, 31) # stk) s
      else Return s)"

definition EqualValues_at ::
  "T_ptr \<Rightarrow> val \<Rightarrow> val \<Rightarrow> string list \<Rightarrow> site list \<Rightarrow> 'a world_scheme \<Rightarrow> 'a world_scheme outcome" where
  "EqualValues_at t a b msg stk s =
     (if \<not> ObjectsAreEqualValues a b
      then Errorf_at t ''%v unexpectedly not equal %v: %v'' [ArgVal a, ArgVal b, ArgStrs msg]
             ((assert_go, 38) # stk) s
      else Return s)"

definition Equal_at ::
  "T_ptr \<Rightarrow> val \<Rightarrow> val \<Rightarrow> string list \<Rightarrow> site list \<Rightarrow> 'a world_scheme \<Rightarrow> 'a world_scheme outcome" where
  "Equal_at t a b msg stk s = EqualValues_at t a b msg ((assert_go, 44) # stk) s"

definition NoError_at ::
  "T_ptr \<Rightarrow> val \<Rightarrow> string list \<Rightarrow> site list \<Rightarrow> 'a world_scheme \<Rightarrow> 'a world_scheme outcome" where
  "NoError_at t err msg stk s =
     (if err \<noteq> VNil
      then Errorf_at t ''expecting no error, got %v: %v'' [ArgVal err, ArgStrs msg]
             ((assert_go, 50) # stk) s
      else Return s)"

definition Error_at ::
  "T_ptr \<Rightarrow> val \<Rightarrow> string list \<Rightarrow> site list \<Rightarrow> 'a world_scheme \<Rightarrow> 'a world_scheme outcome" where
  "Error_at t err msg stk s =
     (if err = VNil
      then Errorf_at t ''expecting an error, didn't get it: %v'' [ArgStrs msg]
             ((assert_go, 57) # stk) s
      else Return s)"

definition True_at ::
  "T_ptr \<Rightarrow> bool \<Rightarrow> string list \<Rightarrow> site list \<Rightarrow> 'a world_scheme \<Rightarrow> 'a world_scheme outcome" where
  "True_at t b msg stk s =
     (if \<not> b
      then Errorf_at t ''expecting true, didn't: %v'' [ArgStrs msg] ((assert_go, 64) # stk) s
      else Return s)"

definition False_at ::
  "T_ptr \<Rightarrow> bool \<Rightarrow> string list \<Rightarrow> site list \<Rightarrow> 'a world_scheme \<Rightarrow> 'a world_scheme outcome" where
  "False_at t b msg stk s =
     (if b
      then Errorf_at t ''expecting false, didn't: %v'' [ArgStrs msg] ((assert_go, 71) # stk) s
      else Return s)"

definition Contains_at ::
  "T_ptr \<Rightarrow> string \<Rightarrow> string \<Rightarrow> string list \<Rightarrow> site list \<Rightarrow> 'a world_scheme
     \<Rightarrow> 'a world_scheme outcome" where
  "Contains_at t haystack needle msg stk s =
     (if \<not> strings_Contains haystack needle
      then Errorf_at t ''%v doesn't contain %v: %v''
             [ArgStr haystack, ArgStr needle, ArgStrs msg] ((assert_go, 78) # stk) s
      else Return s)"

definition Fail_at :: "T_ptr \<Rightarrow> string \<Rightarrow> site list \<Rightarrow> 'a world_scheme \<Rightarrow> 'a world_scheme outcome" where
  "Fail_at t msg stk s =
     (let (file, line) = runtime_Caller 1 ((assert_go, 84) # stk) in
        case base_name file of
          Inl p \<Rightarrow> Panics p
        | Inr file \<Rightarrow>
            (let s1 = fmt_Printf ''%s:%d %s\<newline>'' [ArgStr file, ArgInt line, ArgStr msg] s
             in ptr_FailNow t s1))"

definition CheckEquals_at ::
  "T_ptr \<Rightarrow> val \<Rightarrow> val \<Rightarrow> val \<Rightarrow> site list \<Rightarrow> 'a world_scheme \<Rightarrow> 'a world_scheme outcome" where
  "CheckEquals_at t actual expected msg stk s =
     (case iface_eq expected actual of
        Inl p \<Rightarrow> Panics p
      | Inr same \<Rightarrow>
          if \<not> same then
            (let (file, line) = runtime_Caller 1 ((assert_go, 94) # stk) in
               case base_name file of
                 Inl p \<Rightarrow> Panics p
               | Inr file \<Rightarrow>
                   (let s1 = fmt_Printf
                        ''%s:%d mismatch!\<newline>actual:\<newline>%+v\<newline>expected:\<newline>%+v\<newline>for %+v\<newline>''
                        [ArgStr file, ArgInt line, ArgVal actual, ArgVal expected, ArgVal msg] s
                    in ptr_Fail t s1))
          else Return s)"

definition Assert_at ::
  "T_ptr \<Rightarrow> bool \<Rightarrow> val \<Rightarrow> site list \<Rightarrow> 'a world_scheme \<Rightarrow> 'a world_scheme outcome" where
  "Assert_at t cond msg stk s =
     (if \<not> cond then
        (let (file, line) = runtime_Caller 1 ((assert_go, 105) # stk) in
           case base_name file of
             Inl p \<Rightarrow> Panics p
           | Inr file \<Rightarrow>
               (let s1 = fmt_Printf ''%s:%d assert failure: %+v\<newline>''
                           [ArgStr file, ArgInt line, ArgVal msg] s
                in ptr_Fail t s1))
      else Return s)"

section \<open>Suites\<close>

text \<open>
  A suite is a pointer to a user struct that embeds \<^verbatim>\<open>TestSuite\<close>. The struct lives in
  the world: its field \<^verbatim>\<open>t\<close> and the user's own fields are part of the state that hooks
  and test methods read and write.
\<close>

record 'u suite_world = world +
  suite_t :: handle
  user :: 'u

definition TestSuite_T :: "'u suite_world \<Rightarrow> handle" where
  "TestSuite_T s = suite_t s"

definition TestSuite_SetT :: "handle \<Rightarrow> 'u suite_world \<Rightarrow> 'u suite_world" where
  "TestSuite_SetT t s = s\<lparr>suite_t := t\<rparr>"

text \<open>
  What \<^verbatim>\<open>reflect\<close> and type assertions see of the suite value is the exported method set
  of its dynamic type, in the order in which \<^verbatim>\<open>Method(i)\<close> enumerates it. A method has
  a name, the number of parameters it requires besides the receiver, the number of its
  results, and its code; the code of a method that requires arguments is never run
  here, since \<^verbatim>\<open>Run\<close> supplies none.
\<close>

record 'u reflect_Method =
  Name :: string
  NumIn :: nat
  NumOut :: nat
  Func :: "'u suite_world \<Rightarrow> 'u suite_world outcome"

type_synonym 'u suite = "'u reflect_Method list"

text \<open>
  The type assertions \<^verbatim>\<open>suite.(hasSetupTest)\<close> and \<^verbatim>\<open>suite.(hasTearDown)\<close> succeed when
  the method set has a method of that name with no parameters and no results; the
  interface value obtained dispatches to that method.
\<close>

definition implements :: "'u suite \<Rightarrow> string \<Rightarrow> 'u reflect_Method option" where
  "implements suite n = find (\<lambda>m. Name m = n \<and> NumIn m = 0 \<and> NumOut m = 0) suite"

text \<open>
  \<^verbatim>\<open>regexp.MatchString\<close> on the patterns that consist of literal characters, optionally
  anchored by a leading \<^verbatim>\<open>^\<close>: an anchored pattern matches at the start of the text, an
  unanchored one anywhere.
\<close>

definition regexp_MatchString :: "string \<Rightarrow> string \<Rightarrow> bool" where
  "regexp_MatchString pattern s =
     (case pattern of
        [] \<Rightarrow> True
      | c # lit \<Rightarrow> if c = CHR ''^'' then take (length lit) s = lit else strings_Contains s pattern)"

text \<open>
  \<^verbatim>\<open>method.Func.Call([]reflect.Value{reflect.ValueOf(suite)})\<close> passes the receiver
  only; \<^verbatim>\<open>reflect\<close> panics when the method requires further arguments.
\<close>

definition reflect_Call :: "'u reflect_Method \<Rightarrow> 'u suite_world \<Rightarrow> 'u suite_world outcome" where
  "reflect_Call m s =
     (if NumIn m \<noteq> 0 then Panics (Panic ''reflect: Call with too few input arguments'')
      else Func m s)"

datatype 'u InternalTest =
  InternalTest (test_Name: string) (test_F: "'u suite_world \<Rightarrow> 'u suite_world outcome")

text \<open>The first loop of \<^verbatim>\<open>Run\<close>, over the indices of the method set.\<close>

function collect_tests :: "'u suite \<Rightarrow> nat \<Rightarrow> 'u InternalTest list \<Rightarrow> 'u InternalTest list" where
  "collect_tests methodFinder i tests =
     (if i < length methodFinder then
        (let method = methodFinder ! i in
           if \<not> regexp_MatchString ''^Test'' (Name method)
           then collect_tests methodFinder (Suc i) tests
           else collect_tests methodFinder (Suc i)
                  (tests @ [InternalTest (Name method) (reflect_Call method)]))
      else tests)"
  by pat_completeness auto
termination
  by (relation "measure (\<lambda>(methodFinder, i, tests). length methodFinder - i)") auto

declare collect_tests.simps [simp del]

text \<open>
  \<^verbatim>\<open>t.Run(name, f)\<close> runs \<open>f\<close> in a goroutine of its own and waits for it. When \<open>f\<close>
  returns, \<^verbatim>\<open>t.Run\<close> returns. When \<open>f\<close> ends in \<^verbatim>\<open>runtime.Goexit\<close>, the child context is
  not finished; \<^verbatim>\<open>testing.tRunner\<close> then looks at the parent: if \<^verbatim>\<open>FailNow\<close> has
  finished the parent \<open>t\<close> (the log says "subtest may have called FailNow on a parent
  test"), it signals this and \<^verbatim>\<open>t.Run\<close> calls \<^verbatim>\<open>runtime.Goexit\<close> in the caller's
  goroutine; otherwise it panics. (The standard library's test "subtest calls fatal on
  parent" pins this down: the statement after \<^verbatim>\<open>t.Run\<close> must not be reached.) A panic
  in \<open>f\<close> ends the process. The function \<open>f\<close> built by \<^verbatim>\<open>Run\<close> ignores the child
  context it is given, so the child is not part of the state.
\<close>

definition t_Run ::
  "handle \<Rightarrow> string \<Rightarrow> ('u suite_world \<Rightarrow> 'u suite_world outcome) \<Rightarrow> 'u suite_world
     \<Rightarrow> 'u suite_world outcome" where
  "t_Run t name f s =
     (case f s of
        Return s' \<Rightarrow> Return s'
      | Goexit s' \<Rightarrow>
          if finished (ts s' t) then Goexit s'
          else Panics (Panic ''test executed panic(nil) or runtime.Goexit'')
      | Panics p \<Rightarrow> Panics p)"

text \<open>
  The calls that \<^verbatim>\<open>Run\<close> makes into the suite are observed as a trace, kept apart from
  the state so that user code cannot touch it. Each entry is the call together with
  the handle that \<^verbatim>\<open>T()\<close> returns when the call starts.
\<close>

datatype call = SetupTest | TestBody string | TearDownTest

type_synonym event = "call \<times> handle"

definition seq ::
  "('s \<Rightarrow> event list \<times> 's outcome) \<Rightarrow> ('s \<Rightarrow> event list \<times> 's outcome) \<Rightarrow> 's
     \<Rightarrow> event list \<times> 's outcome" where
  "seq m k s =
     (case m s of
        (es, Return s') \<Rightarrow> (case k s' of (es', r) \<Rightarrow> (es @ es', r))
      | (es, r) \<Rightarrow> (es, r))"

text \<open>\<^verbatim>\<open>if setup != nil { setup.SetupTest() }\<close> and its counterpart for teardown.\<close>

definition call_SetupTest ::
  "'u reflect_Method option \<Rightarrow> 'u suite_world \<Rightarrow> event list \<times> 'u suite_world outcome" where
  "call_SetupTest setup s =
     (case setup of
        None \<Rightarrow> ([], Return s)
      | Some m \<Rightarrow> ([(SetupTest, TestSuite_T s)], Func m s))"

definition call_TearDownTest ::
  "'u reflect_Method option \<Rightarrow> 'u suite_world \<Rightarrow> event list \<times> 'u suite_world outcome" where
  "call_TearDownTest tearDown s =
     (case tearDown of
        None \<Rightarrow> ([], Return s)
      | Some m \<Rightarrow> ([(TearDownTest, TestSuite_T s)], Func m s))"

definition run_test ::
  "handle \<Rightarrow> 'u InternalTest \<Rightarrow> 'u suite_world \<Rightarrow> event list \<times> 'u suite_world outcome" where
  "run_test t test s =
     ([(TestBody (test_Name test), TestSuite_T s)], t_Run t (test_Name test) (test_F test) s)"

text \<open>The second loop of \<^verbatim>\<open>Run\<close>, over the collected tests.\<close>

primrec run_tests ::
  "handle \<Rightarrow> 'u reflect_Method option \<Rightarrow> 'u reflect_Method option \<Rightarrow> 'u InternalTest list
     \<Rightarrow> 'u suite_world \<Rightarrow> event list \<times> 'u suite_world outcome" where
  "run_tests t setup tearDown [] = (\<lambda>s. ([], Return s))"
| "run_tests t setup tearDown (test # tests) =
     seq (call_SetupTest setup)
       (seq (run_test t test)
         (seq (call_TearDownTest tearDown) (run_tests t setup tearDown tests)))"

definition Run :: "handle \<Rightarrow> 'u suite \<Rightarrow> 'u suite_world \<Rightarrow> event list \<times> 'u suite_world outcome" where
  "Run t suite s =
     (let s1 = TestSuite_SetT t s;
          tests = [];
          methodFinder = suite;
          setup = implements suite ''SetupTest'';
          tearDown = implements suite ''TearDownTest'';
          tests = collect_tests methodFinder 0 tests
      in run_tests t setup tearDown tests s1)"

section \<open>What the properties speak about\<close>

text \<open>
  A helper reports a failure when it ends (by returning or by \<^verbatim>\<open>Goexit\<close>) with the test
  marked failed and exactly one more line on standard output. It reports nothing when it
  returns the state it was given.
\<close>

definition reports_failure :: "handle \<Rightarrow> 'a world_scheme \<Rightarrow> 'a world_scheme outcome \<Rightarrow> bool" where
  "reports_failure t s r =
     (case r of
        Return s' \<Rightarrow> failed (ts s' t) \<and> butlast (stdout s') = stdout s \<and> stdout s' \<noteq> []
      | Goexit s' \<Rightarrow> failed (ts s' t) \<and> butlast (stdout s') = stdout s \<and> stdout s' \<noteq> []
      | Panics p \<Rightarrow> False)"

definition crashes :: "'s outcome \<Rightarrow> bool" where
  "crashes r = (case r of Return s' \<Rightarrow> False | Goexit s' \<Rightarrow> False | Panics p \<Rightarrow> True)"

definition printed_lines :: "'a world_scheme outcome \<Rightarrow> printed list" where
  "printed_lines r =
     (case r of Return s' \<Rightarrow> stdout s' | Goexit s' \<Rightarrow> stdout s' | Panics p \<Rightarrow> [])"

text \<open>
  A statement of a test body fails and goes on when it returns with the test marked
  failed, leaves \<open>finished\<close> as it was, and the rest \<open>k\<close> of the body runs from the state
  it left. It fails and stops when it ends in \<^verbatim>\<open>Goexit\<close> with the test marked failed and
  finished, and the rest of the body does not run.
\<close>

definition fails_and_goes_on ::
  "handle \<Rightarrow> ('a world_scheme \<Rightarrow> 'a world_scheme outcome) \<Rightarrow> 'a world_scheme
     \<Rightarrow> 'a world_scheme outcome \<Rightarrow> bool" where
  "fails_and_goes_on t k s r =
     (case r of
        Return s' \<Rightarrow>
          failed (ts s' t) \<and> finished (ts s' t) = finished (ts s t) \<and> and_then r k = k s'
      | Goexit s' \<Rightarrow> False
      | Panics p \<Rightarrow> False)"

definition fails_and_stops ::
  "handle \<Rightarrow> ('a world_scheme \<Rightarrow> 'a world_scheme outcome) \<Rightarrow> 'a world_scheme outcome \<Rightarrow> bool" where
  "fails_and_stops t k r =
     (case r of
        Return s' \<Rightarrow> False
      | Goexit s' \<Rightarrow> failed (ts s' t) \<and> finished (ts s' t) \<and> and_then r k = Goexit s'
      | Panics p \<Rightarrow> False)"

text \<open>
  The calls a complete run makes: for each method whose name starts with \<^verbatim>\<open>Test\<close>, in
  the order of the method set, the setup hook if the suite has one, the test, the
  teardown hook if the suite has one.
\<close>

definition bracket :: "bool \<Rightarrow> bool \<Rightarrow> string \<Rightarrow> call list" where
  "bracket has_setup has_teardown n =
     (if has_setup then [SetupTest] else []) @ [TestBody n]
       @ (if has_teardown then [TearDownTest] else [])"

definition bracketed_calls :: "'u suite \<Rightarrow> call list" where
  "bracketed_calls suite =
     concat (map (bracket (implements suite ''SetupTest'' \<noteq> None)
                          (implements suite ''TearDownTest'' \<noteq> None))
                 (filter (prefix ''Test'') (map Name suite)))"

text \<open>
  The names of the tests among a list of calls, in order. The code that a hook
  contributes to a run: none when the suite lacks the capability. Running a list of
  pieces of code one after the other, as statements in sequence.
\<close>

definition test_names :: "call list \<Rightarrow> string list" where
  "test_names cs =
     concat (map (\<lambda>c. case c of SetupTest \<Rightarrow> [] | TestBody n \<Rightarrow> [n] | TearDownTest \<Rightarrow> []) cs)"

definition hook_code ::
  "'u reflect_Method option \<Rightarrow> ('u suite_world \<Rightarrow> 'u suite_world outcome) list" where
  "hook_code h = (case h of None \<Rightarrow> [] | Some m \<Rightarrow> [Func m])"

primrec in_sequence :: "('s \<Rightarrow> 's outcome) list \<Rightarrow> 's \<Rightarrow> 's outcome" where
  "in_sequence [] s = Return s"
| "in_sequence (f # fs) s = and_then (f s) (in_sequence fs)"

text \<open>
  User code keeps the binding when it leaves the field \<^verbatim>\<open>t\<close> of the suite as it found
  it; it returns when, from every state, it ends by returning.
\<close>

definition keeps_binding :: "('u suite_world \<Rightarrow> 'u suite_world outcome) \<Rightarrow> bool" where
  "keeps_binding f = (\<forall>s s'. f s = Return s' \<longrightarrow> TestSuite_T s' = TestSuite_T s)"

definition returns :: "('s \<Rightarrow> 's outcome) \<Rightarrow> bool" where
  "returns f = (\<forall>s. \<exists>s'. f s = Return s')"

section \<open>Example values and suites\<close>

definition world0 :: world where
  "world0 = \<lparr>ts = (\<lambda>t. \<lparr>failed = False, finished = False\<rparr>), stdout = []\<rparr>"

definition struct_S :: val where
  "struct_S = VStruct ''S'' [VInt 1, VString ''a'']"

definition ptr1 :: val where
  "ptr1 = VPtr (TStruct ''S'') 1 struct_S"

definition ptr2 :: val where
  "ptr2 = VPtr (TStruct ''S'') 2 struct_S"

definition demo_test_go :: string where
  "demo_test_go = ''/home/dev/demo/demo_test.go''"

definition test_site :: "site list" where
  "test_site = [(demo_test_go, 10)]"

text \<open>
  The example suites keep a log in their own field: every method appends a line when it
  runs. The method sets are listed as \<^verbatim>\<open>reflect\<close> enumerates them, sorted by name.
\<close>

definition record_step :: "string \<Rightarrow> string list suite_world \<Rightarrow> string list suite_world" where
  "record_step n s = s\<lparr>user := user s @ [n]\<rparr>"

definition demo_world :: "string list suite_world" where
  "demo_world =
     \<lparr>ts = (\<lambda>t. \<lparr>failed = False, finished = False\<rparr>), stdout = [], suite_t = 0, user = []\<rparr>"

definition demo_suite :: "string list suite" where
  "demo_suite =
     [\<lparr>Name = ''Helper'', NumIn = 0, NumOut = 0,
         Func = (\<lambda>s. Return (record_step ''Helper'' s))\<rparr>,
      \<lparr>Name = ''SetT'', NumIn = 1, NumOut = 0, Func = Return\<rparr>,
      \<lparr>Name = ''SetupTest'', NumIn = 0, NumOut = 0,
         Func = (\<lambda>s. Return (record_step ''SetupTest'' s))\<rparr>,
      \<lparr>Name = ''T'', NumIn = 0, NumOut = 1, Func = Return\<rparr>,
      \<lparr>Name = ''TearDownTest'', NumIn = 0, NumOut = 0,
         Func = (\<lambda>s. Return (record_step ''TearDownTest'' s))\<rparr>,
      \<lparr>Name = ''TestA'', NumIn = 0, NumOut = 0,
         Func = (\<lambda>s. and_then
                         (Equal (TestSuite_T s) (VInt 1) (VInt 2) [] [(demo_test_go, 12)]
                            (record_step ''TestA'' s))
                         (\<lambda>s. Return (record_step ''TestA goes on'' s)))\<rparr>,
      \<lparr>Name = ''TestB'', NumIn = 0, NumOut = 0,
         Func = (\<lambda>s. Return (record_step ''TestB'' s))\<rparr>]"

definition fatal_suite :: "string list suite" where
  "fatal_suite =
     [\<lparr>Name = ''SetupTest'', NumIn = 0, NumOut = 0,
         Func = (\<lambda>s. Return (record_step ''SetupTest'' s))\<rparr>,
      \<lparr>Name = ''TearDownTest'', NumIn = 0, NumOut = 0,
         Func = (\<lambda>s. Return (record_step ''TearDownTest'' s))\<rparr>,
      \<lparr>Name = ''TestX'', NumIn = 0, NumOut = 0,
         Func = (\<lambda>s. and_then
                         (Fail (TestSuite_T s) ''boom'' [(demo_test_go, 20)]
                            (record_step ''TestX'' s))
                         (\<lambda>s. Return (record_step ''TestX goes on'' s)))\<rparr>,
      \<lparr>Name = ''TestY'', NumIn = 0, NumOut = 0,
         Func = (\<lambda>s. Return (record_step ''TestY'' s))\<rparr>]"

definition bare_suite :: "string list suite" where
  "bare_suite =
     [\<lparr>Name = ''TestA'', NumIn = 0, NumOut = 0,
         Func = (\<lambda>s. Return (record_step ''TestA'' s))\<rparr>,
      \<lparr>Name = ''TestB'', NumIn = 0, NumOut = 0,
         Func = (\<lambda>s. Return (record_step ''TestB'' s))\<rparr>]"

section \<open>Facts about the model\<close>

subsection \<open>The helpers\<close>

lemma last_index_from_bounds: "- 1 \<le> last_index_from i s sep \<and> last_index_from i s sep \<le> int i"
  by (induction i) auto

lemma strings_LastIndex_bounds:
  assumes "sep \<noteq> []"
  shows "- 1 \<le> strings_LastIndex s sep \<and> strings_LastIndex s sep < int (length s)"
proof (cases "length s < length sep")
  case True
  then show ?thesis by (simp add: strings_LastIndex_def)
next
  case False
  let ?i = "last_index_from (length s - length sep) s sep"
  from assms False have "length s - length sep < length s" by (cases sep) auto
  moreover have lo: "- 1 \<le> ?i" and "?i \<le> int (length s - length sep)"
    using last_index_from_bounds [of "length s - length sep" s sep] by blast+
  ultimately have "?i < int (length s)" by linarith
  with lo False show ?thesis by (simp add: strings_LastIndex_def)
qed

lemma base_name_eq [simp]:
  "base_name file = Inr (drop (nat (strings_LastIndex file ''/'' + 1)) file)"
  using strings_LastIndex_bounds [where sep = "''/''" and s = "file"]
  by (simp add: base_name_def slice_from_def)

lemma reports_failure_Errorf: "reports_failure t s (Errorf t format rest stk s)"
  by (simp add: reports_failure_def Errorf_def t_Fail_def fmt_Printf_def split: prod.splits)

lemma not_reports_failure_Return: "\<not> reports_failure t s (Return s)"
  using append_butlast_last_id by (fastforce simp: reports_failure_def)

lemma Errorf_not_silent: "Errorf t format rest stk s \<noteq> Return s"
  using reports_failure_Errorf [of t s format rest stk] not_reports_failure_Return [of t s]
  by auto

lemma Errorf_goes_on: "fails_and_goes_on t k s (Errorf t format rest stk s)"
  by (simp add: fails_and_goes_on_def Errorf_def t_Fail_def fmt_Printf_def and_then_def
      split: prod.splits)

lemma Errorf_no_crash: "\<not> crashes (Errorf t format rest stk s)"
  by (simp add: crashes_def Errorf_def split: prod.splits)

lemma deepValueEqual_refl: "deepValueEqual v v"
proof (induction v)
  case (VSlice T xs)
  then have "deepValueEqual_list xs xs" by (induction xs) simp_all
  then show ?case by simp
next
  case (VStruct n xs)
  then have "deepValueEqual_list xs xs" by (induction xs) simp_all
  then show ?case by simp
qed simp_all

lemma DeepEqual_refl: "DeepEqual v v"
  by (simp add: DeepEqual_def deepValueEqual_refl)

lemma iface_eq_panics:
  "(\<exists>p. iface_eq b a = Inl p) \<longleftrightarrow>
     a \<noteq> VNil \<and> b \<noteq> VNil \<and> dyn_type b = dyn_type a \<and> \<not> comparable b"
  by (auto simp: iface_eq_def)

lemma dyn_type_differs_not_DeepEqual: "dyn_type a \<noteq> dyn_type b \<Longrightarrow> \<not> DeepEqual a b"
  by (auto simp: DeepEqual_def)

lemma dyn_type_differs_iface_eq: "dyn_type a \<noteq> dyn_type b \<Longrightarrow> iface_eq b a = Inr False"
  by (auto simp: iface_eq_def)

lemma CheckEquals_reports:
  "reports_failure t s (CheckEquals t a b v stk s) \<longleftrightarrow> iface_eq b a = Inr False"
proof (cases "iface_eq b a")
  case (Inl p)
  then show ?thesis by (simp add: CheckEquals_def reports_failure_def)
next
  case (Inr same)
  show ?thesis
  proof (cases same)
    case True
    with Inr show ?thesis by (simp add: CheckEquals_def not_reports_failure_Return)
  next
    case False
    with Inr show ?thesis
      by (simp add: CheckEquals_def reports_failure_def t_Fail_def fmt_Printf_def Let_def
          split: prod.splits)
  qed
qed

lemma CheckEquals_crashes:
  "crashes (CheckEquals t a b v stk s) \<longleftrightarrow> (\<exists>p. iface_eq b a = Inl p)"
  by (cases "iface_eq b a") (simp_all add: CheckEquals_def crashes_def Let_def split: prod.splits)

lemma Errorf_at_running: "Errorf_at (RunningT h) format rest stk s = Errorf h format rest stk s"
  by (simp add: Errorf_at_def Errorf_def ptr_Fail_def split: prod.splits)

lemma helpers_at_running:
  "NotEqual_at (RunningT h) a b msg stk s = NotEqual h a b msg stk s"
  "EqualValues_at (RunningT h) a b msg stk s = EqualValues h a b msg stk s"
  "Equal_at (RunningT h) a b msg stk s = Equal h a b msg stk s"
  "NoError_at (RunningT h) err msg stk s = NoError h err msg stk s"
  "Error_at (RunningT h) err msg stk s = Error h err msg stk s"
  "True_at (RunningT h) c msg stk s = True_check h c msg stk s"
  "False_at (RunningT h) c msg stk s = False_check h c msg stk s"
  "Contains_at (RunningT h) haystack needle msg stk s = Contains h haystack needle msg stk s"
  "Fail_at (RunningT h) m stk s = Fail h m stk s"
  "CheckEquals_at (RunningT h) a b v stk s = CheckEquals h a b v stk s"
  "Assert_at (RunningT h) c v stk s = Assert h c v stk s"
  by (simp_all add: NotEqual_at_def NotEqual_def EqualValues_at_def EqualValues_def Equal_at_def
      Equal_def NoError_at_def NoError_def Error_at_def Error_def True_at_def True_check_def
      False_at_def False_check_def Contains_at_def Contains_def Fail_at_def Fail_def
      CheckEquals_at_def CheckEquals_def Assert_at_def Assert_def Errorf_at_running
      ptr_Fail_def ptr_FailNow_def split: prod.splits sum.splits)

lemma crashes_Return [simp]: "\<not> crashes (Return s)"
  by (simp add: crashes_def)

lemma crashes_ptr_Fail: "crashes (ptr_Fail p s) \<longleftrightarrow> \<not> is_running p"
  by (cases p) (simp_all add: ptr_Fail_def is_running_def crashes_def)

lemma crashes_ptr_FailNow: "crashes (ptr_FailNow p s) \<longleftrightarrow> \<not> is_running p"
  by (cases p) (simp_all add: ptr_FailNow_def t_FailNow_def is_running_def crashes_def Let_def)

lemma crashes_Errorf_at: "crashes (Errorf_at p format rest stk s) \<longleftrightarrow> \<not> is_running p"
  by (simp add: Errorf_at_def crashes_ptr_Fail split: prod.splits)

lemma crashes_Fail_at: "crashes (Fail_at p m stk s) \<longleftrightarrow> \<not> is_running p"
  by (simp add: Fail_at_def crashes_ptr_FailNow split: prod.splits)

lemma crashes_Assert_at: "crashes (Assert_at p c v stk s) \<longleftrightarrow> \<not> is_running p \<and> \<not> c"
  by (simp add: Assert_at_def crashes_ptr_Fail split: prod.splits)

lemma crashes_CheckEquals_at:
  "crashes (CheckEquals_at p a b v stk s) \<longleftrightarrow>
     (\<exists>e. iface_eq b a = Inl e) \<or> (\<not> is_running p \<and> iface_eq b a = Inr False)"
proof (cases "iface_eq b a")
  case (Inl e)
  then show ?thesis by (simp add: CheckEquals_at_def crashes_def)
next
  case (Inr same)
  then show ?thesis
    by (cases same) (simp_all add: CheckEquals_at_def crashes_ptr_Fail split: prod.splits)
qed

lemma strings_Contains_iff: "strings_Contains h n \<longleftrightarrow> sublist n h"
proof (induction h)
  case Nil
  show ?case by auto
next
  case (Cons c cs)
  have "take (length n) (c # cs) = n \<longleftrightarrow> prefix n (c # cs)"
    by (metis append_eq_conv_conj prefix_def)
  with Cons show ?case
    by (cases n) (auto simp: sublist_Cons_right)
qed

subsection \<open>Discovery\<close>

lemma take_prefix_iff: "(take (length xs) ys = xs) = prefix xs ys"
  by (metis append_eq_conv_conj prefix_def)

lemma regexp_Test_prefix: "regexp_MatchString ''^Test'' n = prefix ''Test'' n"
  unfolding take_prefix_iff [symmetric] by (simp add: regexp_MatchString_def)

lemma collect_tests_eq:
  "collect_tests ms i acc =
     acc @ map (\<lambda>m. InternalTest (Name m) (reflect_Call m))
             (filter (\<lambda>m. prefix ''Test'' (Name m)) (drop i ms))"
proof (induction ms i acc rule: collect_tests.induct)
  case (1 ms i acc)
  show ?case
  proof (cases "i < length ms")
    case False
    then show ?thesis by (simp add: collect_tests.simps)
  next
    case True
    then have d: "drop i ms = ms ! i # drop (Suc i) ms"
      by (simp add: Cons_nth_drop_Suc)
    show ?thesis
    proof (cases "prefix ''Test'' (Name (ms ! i))")
      case True
      with 1(2) [OF \<open>i < length ms\<close> refl] \<open>i < length ms\<close> d show ?thesis
        by (subst collect_tests.simps) (simp add: regexp_Test_prefix Let_def)
    next
      case False
      with 1(1) [OF \<open>i < length ms\<close> refl] \<open>i < length ms\<close> d show ?thesis
        by (subst collect_tests.simps) (simp add: regexp_Test_prefix Let_def)
    qed
  qed
qed

lemma test_names_collect:
  "map test_Name (collect_tests suite 0 []) = filter (prefix ''Test'') (map Name suite)"
  by (simp add: collect_tests_eq filter_map comp_def)

lemma implements_in_set: "implements suite n = Some m \<Longrightarrow> m \<in> set suite"
  by (auto simp: implements_def find_Some_iff)

subsection \<open>The trace of a run\<close>

lemma run_tests_prefix:
  "run_tests t su td tests s = (tr, r) \<Longrightarrow>
     prefix (map fst tr)
       (concat (map (bracket (su \<noteq> None) (td \<noteq> None)) (map test_Name tests)))"
proof (induction tests arbitrary: s tr r)
  case Nil
  then show ?case by auto
next
  case (Cons test tests)
  then show ?case
    by (auto simp: seq_def call_SetupTest_def call_TearDownTest_def run_test_def bracket_def
        split: prod.splits outcome.splits option.splits)
qed

lemma run_tests_return:
  "run_tests t su td tests s = (tr, Return s') \<Longrightarrow>
     map fst tr = concat (map (bracket (su \<noteq> None) (td \<noteq> None)) (map test_Name tests))"
proof (induction tests arbitrary: s tr)
  case Nil
  then show ?case by auto
next
  case (Cons test tests)
  then show ?case
    by (auto simp: seq_def call_SetupTest_def call_TearDownTest_def run_test_def bracket_def
        split: prod.splits outcome.splits option.splits)
qed

lemma Run_as_run_tests:
  "run_tests t (implements suite ''SetupTest'') (implements suite ''TearDownTest'')
     (collect_tests suite 0 []) (TestSuite_SetT t s) = (fst (Run t suite s), snd (Run t suite s))"
  by (simp add: Run_def Let_def)

lemma Run_trace_prefix: "prefix (map fst (fst (Run t suite s))) (bracketed_calls suite)"
  using run_tests_prefix [OF Run_as_run_tests, of t suite s]
  by (simp add: bracketed_calls_def test_names_collect)

lemma Run_trace_return:
  assumes "snd (Run t suite s) = Return s'"
  shows "map fst (fst (Run t suite s)) = bracketed_calls suite"
proof -
  from assms Run_as_run_tests [of t suite s]
  have "run_tests t (implements suite ''SetupTest'') (implements suite ''TearDownTest'')
     (collect_tests suite 0 []) (TestSuite_SetT t s) = (fst (Run t suite s), Return s')"
    by simp
  from run_tests_return [OF this] show ?thesis
    by (simp add: bracketed_calls_def test_names_collect)
qed

lemma Run_trace_subset: "set (map fst (fst (Run t suite s))) \<subseteq> set (bracketed_calls suite)"
  using Run_trace_prefix by (rule set_mono_prefix)

lemma TestBody_in_bracketed:
  "TestBody n \<in> set (bracketed_calls suite) \<Longrightarrow> prefix ''Test'' n \<and> n \<in> Name ` set suite"
  by (auto simp: bracketed_calls_def bracket_def split: if_splits)

lemma no_SetupTest_call:
  "implements suite ''SetupTest'' = None \<Longrightarrow> SetupTest \<notin> set (bracketed_calls suite)"
  by (auto simp: bracketed_calls_def bracket_def)

lemma no_TearDownTest_call:
  "implements suite ''TearDownTest'' = None \<Longrightarrow> TearDownTest \<notin> set (bracketed_calls suite)"
  by (auto simp: bracketed_calls_def bracket_def)

subsection \<open>The outcome of a run\<close>

lemma in_sequence_append:
  "in_sequence (fs @ gs) s = and_then (in_sequence fs s) (in_sequence gs)"
  by (induction fs arbitrary: s) (auto simp: and_then_def split: outcome.splits)

lemma in_sequence_Cons_fun:
  "in_sequence (f # fs) = (\<lambda>s. and_then (f s) (in_sequence fs))"
  by (rule ext) simp

lemma in_sequence_append_fun:
  "in_sequence (fs @ gs) = (\<lambda>s. and_then (in_sequence fs s) (in_sequence gs))"
  by (rule ext) (rule in_sequence_append)

lemma snd_seq: "snd (seq m k s) = and_then (snd (m s)) (\<lambda>s'. snd (k s'))"
  by (auto simp: seq_def and_then_def split: prod.splits outcome.splits)

lemma snd_call_SetupTest: "snd (call_SetupTest su s) = in_sequence (hook_code su) s"
  by (cases su) (auto simp: call_SetupTest_def hook_code_def and_then_def split: outcome.splits)

lemma snd_call_TearDownTest: "snd (call_TearDownTest td s) = in_sequence (hook_code td) s"
  by (cases td) (auto simp: call_TearDownTest_def hook_code_def and_then_def split: outcome.splits)

lemma run_tests_outcome:
  "snd (run_tests t su td tests s) =
     in_sequence
       (concat (map (\<lambda>x. hook_code su @ [t_Run t (test_Name x) (test_F x)] @ hook_code td) tests))
       s"
proof (induction tests arbitrary: s)
  case Nil
  show ?case by simp
next
  case (Cons x tests)
  let ?rest = "concat (map (\<lambda>x. hook_code su @ [t_Run t (test_Name x) (test_F x)] @ hook_code td)
                 tests)"
  have "snd (run_tests t su td (x # tests) s) =
          and_then (in_sequence (hook_code su) s)
            (\<lambda>s1. and_then (t_Run t (test_Name x) (test_F x) s1)
               (\<lambda>s2. and_then (in_sequence (hook_code td) s2) (in_sequence ?rest)))"
    by (simp add: snd_seq snd_call_SetupTest snd_call_TearDownTest run_test_def Cons.IH)
  also have "\<dots> = in_sequence (hook_code su @ [t_Run t (test_Name x) (test_F x)]
                       @ hook_code td @ ?rest) s"
    by (simp add: in_sequence_append in_sequence_Cons_fun in_sequence_append_fun)
  finally show ?case by simp
qed

lemma Run_outcome:
  "snd (Run t suite s) =
     in_sequence
       (concat (map (\<lambda>m. hook_code (implements suite ''SetupTest'')
                          @ [t_Run t (Name m) (reflect_Call m)]
                          @ hook_code (implements suite ''TearDownTest''))
                    (filter (\<lambda>m. prefix ''Test'' (Name m)) suite)))
       (TestSuite_SetT t s)"
  by (simp add: Run_def Let_def run_tests_outcome collect_tests_eq comp_def)

lemma test_names_append: "test_names (xs @ ys) = test_names xs @ test_names ys"
  by (simp add: test_names_def)

lemma test_names_prefix: "prefix xs ys \<Longrightarrow> prefix (test_names xs) (test_names ys)"
  by (auto simp: prefix_def test_names_append)

lemma test_names_bracketed:
  "test_names (bracketed_calls suite) = filter (prefix ''Test'') (map Name suite)"
proof -
  have "test_names (concat (map (bracket a b) ns)) = ns" for a b ns
    by (induction ns) (simp_all add: test_names_def bracket_def)
  then show ?thesis by (simp add: bracketed_calls_def)
qed

subsection \<open>The binding seen by hooks and tests\<close>

lemma seq_binding:
  assumes m: "\<And>s tr r. TestSuite_T s = h \<Longrightarrow> m s = (tr, r) \<Longrightarrow>
                (\<forall>e\<in>set tr. snd e = h) \<and> (\<forall>s'. r = Return s' \<longrightarrow> TestSuite_T s' = h)"
    and k: "\<And>s tr r. TestSuite_T s = h \<Longrightarrow> k s = (tr, r) \<Longrightarrow>
                (\<forall>e\<in>set tr. snd e = h) \<and> (\<forall>s'. r = Return s' \<longrightarrow> TestSuite_T s' = h)"
    and s: "TestSuite_T s = h"
    and run: "seq m k s = (tr, r)"
  shows "(\<forall>e\<in>set tr. snd e = h) \<and> (\<forall>s'. r = Return s' \<longrightarrow> TestSuite_T s' = h)"
proof -
  obtain e1 r1 where c1: "m s = (e1, r1)" by fastforce
  note p1 = m [OF s c1]
  show ?thesis
  proof (cases r1)
    case (Return s1)
    obtain e2 r2 where c2: "k s1 = (e2, r2)" by fastforce
    from p1 Return have "TestSuite_T s1 = h" by simp
    note p2 = k [OF this c2]
    from run c1 c2 Return have "tr = e1 @ e2 \<and> r = r2" by (simp add: seq_def)
    with p1 p2 show ?thesis by auto
  next
    case (Goexit s1)
    with run c1 have "tr = e1 \<and> r = r1" by (simp add: seq_def)
    with p1 Goexit show ?thesis by auto
  next
    case (Panics p)
    with run c1 have "tr = e1 \<and> r = r1" by (simp add: seq_def)
    with p1 Panics show ?thesis by auto
  qed
qed

lemma keeps_binding_reflect_Call: "keeps_binding (Func m) \<Longrightarrow> keeps_binding (reflect_Call m)"
  by (simp add: keeps_binding_def reflect_Call_def)

lemma run_tests_binding:
  assumes su: "\<forall>m. su = Some m \<longrightarrow> keeps_binding (Func m)"
    and td: "\<forall>m. td = Some m \<longrightarrow> keeps_binding (Func m)"
  shows "\<forall>x\<in>set tests. keeps_binding (test_F x) \<Longrightarrow> TestSuite_T s = h \<Longrightarrow>
         run_tests t su td tests s = (tr, r) \<Longrightarrow>
         (\<forall>e\<in>set tr. snd e = h) \<and> (\<forall>s'. r = Return s' \<longrightarrow> TestSuite_T s' = h)"
proof (induction tests arbitrary: s tr r)
  case Nil
  then show ?case by auto
next
  case (Cons x tests)
  have before: "(\<forall>e\<in>set tr. snd e = h) \<and> (\<forall>s'. r = Return s' \<longrightarrow> TestSuite_T s' = h)"
    if "TestSuite_T s = h" "call_SetupTest su s = (tr, r)" for s tr r
    using that su by (auto simp: call_SetupTest_def keeps_binding_def split: option.splits)
  have after: "(\<forall>e\<in>set tr. snd e = h) \<and> (\<forall>s'. r = Return s' \<longrightarrow> TestSuite_T s' = h)"
    if "TestSuite_T s = h" "call_TearDownTest td s = (tr, r)" for s tr r
    using that td by (auto simp: call_TearDownTest_def keeps_binding_def split: option.splits)
  from Cons.prems(1) have kx: "keeps_binding (test_F x)" by simp
  have test: "(\<forall>e\<in>set tr. snd e = h) \<and> (\<forall>s'. r = Return s' \<longrightarrow> TestSuite_T s' = h)"
    if "TestSuite_T s = h" "run_test t x s = (tr, r)" for s tr r
    using that kx
    by (auto simp: run_test_def t_Run_def keeps_binding_def split: outcome.splits if_splits)
  have rest: "(\<forall>e\<in>set tr. snd e = h) \<and> (\<forall>s'. r = Return s' \<longrightarrow> TestSuite_T s' = h)"
    if "TestSuite_T s = h" "run_tests t su td tests s = (tr, r)" for s tr r
    using Cons.IH [OF _ that] Cons.prems(1) by simp
  have l3: "(\<forall>e\<in>set tr. snd e = h) \<and> (\<forall>s'. r = Return s' \<longrightarrow> TestSuite_T s' = h)"
    if "TestSuite_T s = h" "seq (call_TearDownTest td) (run_tests t su td tests) s = (tr, r)"
    for s tr r
    by (rule seq_binding [where m = "call_TearDownTest td" and k = "run_tests t su td tests",
          OF after rest that])
  have l2: "(\<forall>e\<in>set tr. snd e = h) \<and> (\<forall>s'. r = Return s' \<longrightarrow> TestSuite_T s' = h)"
    if "TestSuite_T s = h"
      "seq (run_test t x) (seq (call_TearDownTest td) (run_tests t su td tests)) s = (tr, r)"
    for s tr r
    by (rule seq_binding [where m = "run_test t x"
          and k = "seq (call_TearDownTest td) (run_tests t su td tests)", OF test l3 that])
  from Cons.prems(3)
  have l1: "seq (call_SetupTest su)
          (seq (run_test t x) (seq (call_TearDownTest td) (run_tests t su td tests))) s = (tr, r)"
    by simp
  show ?case
    by (rule seq_binding [where m = "call_SetupTest su"
          and k = "seq (run_test t x) (seq (call_TearDownTest td) (run_tests t su td tests))",
          OF before l2 Cons.prems(2) l1])
qed

lemma run_tests_first:
  "run_tests t su td tests s = (tr, r) \<Longrightarrow> tr \<noteq> [] \<Longrightarrow> snd (hd tr) = TestSuite_T s"
  by (cases tests)
     (auto simp: seq_def call_SetupTest_def run_test_def
        split: option.splits prod.splits outcome.splits)

subsection \<open>Runs that return\<close>

lemma returns_reflect_Call: "NumIn m = 0 \<Longrightarrow> returns (Func m) \<Longrightarrow> returns (reflect_Call m)"
  by (simp add: returns_def reflect_Call_def)

lemma run_tests_returns:
  assumes "\<forall>m. su = Some m \<longrightarrow> returns (Func m)"
    and "\<forall>m. td = Some m \<longrightarrow> returns (Func m)"
    and "\<forall>x\<in>set tests. returns (test_F x)"
  shows "\<exists>tr s'. run_tests t su td tests s = (tr, Return s')"
  using assms(3)
proof (induction tests arbitrary: s)
  case Nil
  show ?case by simp
next
  case (Cons x tests)
  obtain e1 s1 where c1: "call_SetupTest su s = (e1, Return s1)"
    using assms(1) by (cases su) (auto simp: call_SetupTest_def returns_def)
  from Cons.prems have "returns (test_F x)" by simp
  then obtain s2' where "test_F x s1 = Return s2'"
    unfolding returns_def by blast
  then obtain e2 s2 where c2: "run_test t x s1 = (e2, Return s2)"
    by (simp add: run_test_def t_Run_def)
  obtain e3 s3 where c3: "call_TearDownTest td s2 = (e3, Return s3)"
    using assms(2) by (cases td) (auto simp: call_TearDownTest_def returns_def)
  from Cons.IH Cons.prems obtain e4 s4 where c4: "run_tests t su td tests s3 = (e4, Return s4)"
    by fastforce
  from c1 c2 c3 c4 show ?case by (simp add: seq_def)
qed

subsection \<open>The examples, evaluated\<close>

lemmas helper_eval = Equal_def EqualValues_def NotEqual_def NoError_def Error_def True_check_def
  False_check_def Contains_def Assert_def Fail_def CheckEquals_def ObjectsAreEqualValues_def
  DeepEqual_def iface_eq_def Errorf_def runtime_Caller_def strings_LastIndex_def
  t_Fail_def t_FailNow_def fmt_Printf_def and_then_def assert_go_def Let_def

lemmas run_eval = Run_def collect_tests_eq implements_def seq_def call_SetupTest_def
  call_TearDownTest_def run_test_def t_Run_def reflect_Call_def TestSuite_SetT_def TestSuite_T_def
  record_step_def bracketed_calls_def bracket_def helper_eval

lemmas demo_defs = demo_suite_def fatal_suite_def bare_suite_def demo_world_def demo_test_go_def

lemma demo_run:
  "\<exists>s'. snd (Run 7 demo_suite demo_world) = Return s' \<and> failed (ts s' 7) \<and>
        user s' = [''SetupTest'', ''TestA'', ''TestA goes on'', ''TearDownTest'',
                   ''SetupTest'', ''TestB'', ''TearDownTest'']"
  by (simp add: demo_defs run_eval)

lemma demo_bracketed:
  "bracketed_calls demo_suite =
     [SetupTest, TestBody ''TestA'', TearDownTest, SetupTest, TestBody ''TestB'', TearDownTest]"
  by (simp add: demo_defs run_eval)

lemma demo_trace:
  "map fst (fst (Run 7 demo_suite demo_world)) =
     [SetupTest, TestBody ''TestA'', TearDownTest, SetupTest, TestBody ''TestB'', TearDownTest]"
  by (simp add: demo_defs run_eval)

lemma bare_run:
  "\<exists>s'. snd (Run 7 bare_suite demo_world) = Return s' \<and> user s' = [''TestA'', ''TestB'']"
  by (simp add: demo_defs run_eval)

section \<open>The claims\<close>

subsection \<open>The suite runner\<close>

text \<open>
  Claim C1 does not hold of the code. The suite below has both hooks and the tests
  \<^verbatim>\<open>TestX\<close> and \<^verbatim>\<open>TestY\<close>; \<^verbatim>\<open>TestX\<close> calls \<^verbatim>\<open>Fail\<close> on the handle that \<^verbatim>\<open>T()\<close> returns, which
  is the context given to \<^verbatim>\<open>Run\<close>. \<^verbatim>\<open>FailNow\<close> finishes that context and ends the goroutine
  of the sub-test; \<^verbatim>\<open>t.Run\<close> then ends the goroutine that runs \<^verbatim>\<open>Run\<close>. The calls made are
  the setup hook and \<^verbatim>\<open>TestX\<close> only, where the bracketed sequence has six calls: the
  \<^verbatim>\<open>TearDownTest\<close> call that the loop places after \<^verbatim>\<open>t.Run\<close> is not reached, and \<^verbatim>\<open>TestY\<close>
  is not run. The suite's own log shows the same.
\<close>

theorem Run_fatal_test_cuts_the_run:
  "map fst (fst (Run 7 fatal_suite demo_world)) = [SetupTest, TestBody ''TestX''] \<and>
   bracketed_calls fatal_suite =
     [SetupTest, TestBody ''TestX'', TearDownTest, SetupTest, TestBody ''TestY'', TearDownTest] \<and>
   map fst (fst (Run 7 fatal_suite demo_world)) \<noteq> bracketed_calls fatal_suite \<and>
   (case snd (Run 7 fatal_suite demo_world) of
      Return s' \<Rightarrow> False
    | Goexit s' \<Rightarrow> user s' = [''SetupTest'', ''TestX'']
    | Panics p \<Rightarrow> False)"
  by (simp add: demo_defs run_eval)

text \<open>
  Claim C2. \<^verbatim>\<open>Run\<close> registers as tests exactly the methods of the suite value whose name
  starts with \<^verbatim>\<open>Test\<close>, in enumeration order, each with the code that calls that method.
  What \<^verbatim>\<open>Run\<close> does is to run, from the state in which \<open>t\<close> is bound, for each of these
  methods in order: the setup hook if there is one, \<^verbatim>\<open>t.Run\<close> of the call of the method,
  the teardown hook if there is one. The tests it calls are an initial segment of the
  \<^verbatim>\<open>Test\<close> methods, and all of them when it returns. Every call of a test is for a method
  of the suite whose name starts with \<^verbatim>\<open>Test\<close>, so a method such as \<^verbatim>\<open>Helper\<close> is never
  invoked as a test.
\<close>

theorem Run_registers_Test_methods:
  "collect_tests suite 0 [] =
     map (\<lambda>m. InternalTest (Name m) (reflect_Call m))
       (filter (\<lambda>m. prefix ''Test'' (Name m)) suite) \<and>
   snd (Run t suite s) =
     in_sequence
       (concat (map (\<lambda>m. hook_code (implements suite ''SetupTest'')
                          @ [t_Run t (Name m) (reflect_Call m)]
                          @ hook_code (implements suite ''TearDownTest''))
                    (filter (\<lambda>m. prefix ''Test'' (Name m)) suite)))
       (TestSuite_SetT t s) \<and>
   prefix (test_names (map fst (fst (Run t suite s)))) (filter (prefix ''Test'') (map Name suite)) \<and>
   (\<forall>s'. snd (Run t suite s) = Return s' \<longrightarrow>
      test_names (map fst (fst (Run t suite s))) = filter (prefix ''Test'') (map Name suite)) \<and>
   (\<forall>n h. (TestBody n, h) \<in> set (fst (Run t suite s)) \<longrightarrow>
      prefix ''Test'' n \<and> n \<in> Name ` set suite)"
proof -
  have called: "prefix ''Test'' n \<and> n \<in> Name ` set suite"
    if "(TestBody n, h) \<in> set (fst (Run t suite s))" for n h
  proof -
    from that have "TestBody n \<in> set (map fst (fst (Run t suite s)))" by force
    with Run_trace_subset have "TestBody n \<in> set (bracketed_calls suite)" by blast
    then show ?thesis by (rule TestBody_in_bracketed)
  qed
  have some: "prefix (test_names (map fst (fst (Run t suite s))))
                (filter (prefix ''Test'') (map Name suite))"
    using test_names_prefix [OF Run_trace_prefix, of t suite s] by (simp add: test_names_bracketed)
  have every: "test_names (map fst (fst (Run t suite s))) = filter (prefix ''Test'') (map Name suite)"
    if "snd (Run t suite s) = Return s'" for s'
    using Run_trace_return [OF that] by (simp add: test_names_bracketed)
  from called some every Run_outcome [of t suite s] show ?thesis
    by (simp add: collect_tests_eq)
qed

text \<open>
  In the example suite the registered tests are \<^verbatim>\<open>TestA\<close> and \<^verbatim>\<open>TestB\<close>; both are called
  and have written to the suite's log, between the hooks; \<^verbatim>\<open>Helper\<close> has not run.
\<close>

theorem Run_registers_Test_methods_witness:
  "map test_Name (collect_tests demo_suite 0 []) = [''TestA'', ''TestB''] \<and>
   test_names (map fst (fst (Run 7 demo_suite demo_world))) = [''TestA'', ''TestB''] \<and>
   (case snd (Run 7 demo_suite demo_world) of
      Return s' \<Rightarrow>
        user s' = [''SetupTest'', ''TestA'', ''TestA goes on'', ''TearDownTest'',
                   ''SetupTest'', ''TestB'', ''TearDownTest'']
    | Goexit s' \<Rightarrow> False
    | Panics p \<Rightarrow> False) \<and>
   (TestBody ''Helper'', 7) \<notin> set (fst (Run 7 demo_suite demo_world))"
proof -
  from demo_run obtain s' where r: "snd (Run 7 demo_suite demo_world) = Return s'"
    and u: "user s' = [''SetupTest'', ''TestA'', ''TestA goes on'',
       ''TearDownTest'', ''SetupTest'', ''TestB'', ''TearDownTest'']"
    by blast
  have f: "filter (prefix ''Test'') (map Name demo_suite) = [''TestA'', ''TestB'']"
    by (simp add: demo_suite_def)
  have c: "map test_Name (map (\<lambda>m. InternalTest (Name m) (reflect_Call m))
       (filter (\<lambda>m. prefix ''Test'' (Name m)) demo_suite)) = [''TestA'', ''TestB'']"
    by (simp add: demo_suite_def)
  note inst = Run_registers_Test_methods [of demo_suite 7 demo_world]
  from inst have 1: "collect_tests demo_suite 0 [] =
       map (\<lambda>m. InternalTest (Name m) (reflect_Call m))
         (filter (\<lambda>m. prefix ''Test'' (Name m)) demo_suite)"
    by blast
  from inst r have 2: "test_names (map fst (fst (Run 7 demo_suite demo_world))) =
       filter (prefix ''Test'') (map Name demo_suite)"
    by blast
  from inst have "(TestBody ''Helper'', 7) \<in> set (fst (Run 7 demo_suite demo_world)) \<longrightarrow>
       prefix ''Test'' ''Helper''"
    by blast
  then have 3: "(TestBody ''Helper'', 7) \<notin> set (fst (Run 7 demo_suite demo_world))"
    by simp
  from 1 2 3 r u f c show ?thesis by simp
qed

text \<open>
  Claim C3. \<^verbatim>\<open>Run(t, suite)\<close> binds \<open>t\<close> into the suite with \<^verbatim>\<open>SetT\<close> before anything else:
  after \<^verbatim>\<open>SetT\<close>, \<^verbatim>\<open>T()\<close> returns \<open>t\<close>; the first hook or test that runs sees \<open>t\<close>; and, as
  \<^verbatim>\<open>Run\<close> never binds again, every setup hook, test and teardown hook of the run sees
  \<open>t\<close>, provided the user's own methods leave the binding alone.
\<close>

theorem Run_binds_handle_first:
  "TestSuite_T (TestSuite_SetT t s) = t \<and>
   (fst (Run t suite s) \<noteq> [] \<longrightarrow> snd (hd (fst (Run t suite s))) = t) \<and>
   ((\<forall>m\<in>set suite. keeps_binding (Func m)) \<longrightarrow>
      (\<forall>e\<in>set (fst (Run t suite s)). snd e = t))"
proof -
  let ?su = "implements suite ''SetupTest''"
  let ?td = "implements suite ''TearDownTest''"
  have bound: "TestSuite_T (TestSuite_SetT t s) = t"
    by (simp add: TestSuite_T_def TestSuite_SetT_def)
  have first: "snd (hd (fst (Run t suite s))) = t" if "fst (Run t suite s) \<noteq> []"
    using run_tests_first [OF Run_as_run_tests that] bound by simp
  have every: "\<forall>e\<in>set (fst (Run t suite s)). snd e = t"
    if k: "\<forall>m\<in>set suite. keeps_binding (Func m)"
  proof -
    have a: "\<forall>m. ?su = Some m \<longrightarrow> keeps_binding (Func m)"
      using k implements_in_set by blast
    have b: "\<forall>m. ?td = Some m \<longrightarrow> keeps_binding (Func m)"
      using k implements_in_set by blast
    have c: "\<forall>x\<in>set (collect_tests suite 0 []). keeps_binding (test_F x)"
      using k by (auto simp: collect_tests_eq keeps_binding_reflect_Call)
    from run_tests_binding [OF a b c bound Run_as_run_tests] show ?thesis by simp
  qed
  from bound first every show ?thesis by blast
qed

text \<open>
  In the example suite no method rebinds, and every call of the run sees the handle 7
  given to \<^verbatim>\<open>Run\<close>, although the suite held the handle 0 before.
\<close>

theorem Run_binds_handle_first_witness:
  "TestSuite_T demo_world = 0 \<and>
   TestSuite_T (TestSuite_SetT 7 demo_world) = 7 \<and>
   fst (Run 7 demo_suite demo_world) =
     [(SetupTest, 7), (TestBody ''TestA'', 7), (TearDownTest, 7),
      (SetupTest, 7), (TestBody ''TestB'', 7), (TearDownTest, 7)]"
proof -
  have k: "\<forall>m\<in>set demo_suite. keeps_binding (Func m)"
    by (simp add: demo_suite_def keeps_binding_def run_eval)
  from Run_binds_handle_first [where t = 7 and s = demo_world and suite = demo_suite] k
  have "\<forall>e\<in>set (fst (Run 7 demo_suite demo_world)). snd e = 7"
    and "TestSuite_T (TestSuite_SetT 7 demo_world) = 7"
    by blast+
  with demo_trace show ?thesis
    by (auto simp: map_eq_Cons_conv TestSuite_T_def demo_world_def)
qed

text \<open>
  Claim C8. A suite value that lacks the Setup capability, the Teardown capability or
  both is run without any call of the missing hook, and the missing hook raises nothing:
  when the test methods (and the hook that is present, if any) return, \<^verbatim>\<open>Run\<close> returns.
\<close>

theorem Run_skips_missing_hooks:
  assumes "\<forall>m\<in>set suite. prefix ''Test'' (Name m) \<longrightarrow> NumIn m = 0 \<and> returns (Func m)"
    and "\<forall>m. implements suite ''SetupTest'' = Some m \<longrightarrow> returns (Func m)"
    and "\<forall>m. implements suite ''TearDownTest'' = Some m \<longrightarrow> returns (Func m)"
  shows "(\<exists>s'. snd (Run t suite s) = Return s') \<and>
    (implements suite ''SetupTest'' = None \<longrightarrow>
       SetupTest \<notin> fst ` set (fst (Run t suite s))) \<and>
    (implements suite ''TearDownTest'' = None \<longrightarrow>
       TearDownTest \<notin> fst ` set (fst (Run t suite s)))"
proof -
  have c: "\<forall>x\<in>set (collect_tests suite 0 []). returns (test_F x)"
    using assms(1) by (auto simp: collect_tests_eq returns_reflect_Call)
  from run_tests_returns [OF assms(2) assms(3) c]
  have "\<exists>s'. snd (Run t suite s) = Return s'"
    unfolding Run_def Let_def by (metis snd_conv)
  moreover have "SetupTest \<notin> fst ` set (fst (Run t suite s))"
    if "implements suite ''SetupTest'' = None"
    using no_SetupTest_call [OF that] Run_trace_subset [of t suite s] by auto
  moreover have "TearDownTest \<notin> fst ` set (fst (Run t suite s))"
    if "implements suite ''TearDownTest'' = None"
    using no_TearDownTest_call [OF that] Run_trace_subset [of t suite s] by auto
  ultimately show ?thesis by blast
qed

text \<open>
  The example suite with two tests and no hook: \<^verbatim>\<open>Run\<close> returns, both tests have run, and
  the trace has no hook call.
\<close>

theorem Run_skips_missing_hooks_witness:
  "implements bare_suite ''SetupTest'' = None \<and> implements bare_suite ''TearDownTest'' = None \<and>
   (case snd (Run 7 bare_suite demo_world) of
      Return s' \<Rightarrow> user s' = [''TestA'', ''TestB'']
    | Goexit s' \<Rightarrow> False
    | Panics p \<Rightarrow> False) \<and>
   SetupTest \<notin> fst ` set (fst (Run 7 bare_suite demo_world)) \<and>
   TearDownTest \<notin> fst ` set (fst (Run 7 bare_suite demo_world))"
proof -
  have a: "\<forall>m\<in>set bare_suite. prefix ''Test'' (Name m) \<longrightarrow> NumIn m = 0 \<and> returns (Func m)"
    by (simp add: bare_suite_def returns_def)
  have b: "implements bare_suite ''SetupTest'' = None"
    by (simp add: bare_suite_def implements_def)
  have c: "implements bare_suite ''TearDownTest'' = None"
    by (simp add: bare_suite_def implements_def)
  from bare_run obtain s' where r: "snd (Run 7 bare_suite demo_world) = Return s'"
    "user s' = [''TestA'', ''TestB'']" by blast
  from Run_skips_missing_hooks [OF a, of 7 demo_world] b c r show ?thesis by simp
qed

subsection \<open>The assertion helpers\<close>

text \<open>
  Claim C4. For all values \<open>a\<close> and \<open>b\<close>: when they are deeply equal, \<^verbatim>\<open>Equal\<close> reports
  nothing and \<^verbatim>\<open>NotEqual\<close> reports a failure; when they are not, \<^verbatim>\<open>Equal\<close> reports a failure
  and \<^verbatim>\<open>NotEqual\<close> reports nothing.
\<close>

theorem Equal_NotEqual_follow_DeepEqual:
  "(DeepEqual a b \<longrightarrow>
      Equal t a b msg stk s = Return s \<and> reports_failure t s (NotEqual t a b msg stk s)) \<and>
   (\<not> DeepEqual a b \<longrightarrow>
      reports_failure t s (Equal t a b msg stk s) \<and> NotEqual t a b msg stk s = Return s)"
  by (simp add: Equal_def EqualValues_def NotEqual_def ObjectsAreEqualValues_def
      reports_failure_Errorf)

text \<open>
  Two pointers to equal structs at different addresses are deeply equal; the integer 1
  and the string "1" are not.
\<close>

theorem Equal_NotEqual_follow_DeepEqual_witness:
  "DeepEqual ptr1 ptr2 \<and> Equal 0 ptr1 ptr2 [] test_site world0 = Return world0 \<and>
   reports_failure 0 world0 (NotEqual 0 ptr1 ptr2 [] test_site world0) \<and>
   \<not> DeepEqual (VInt 1) (VString ''1'') \<and>
   reports_failure 0 world0 (Equal 0 (VInt 1) (VString ''1'') [] test_site world0) \<and>
   NotEqual 0 (VInt 1) (VString ''1'') [] test_site world0 = Return world0"
proof -
  have a: "DeepEqual ptr1 ptr2"
    by (simp add: DeepEqual_def ptr1_def ptr2_def struct_S_def)
  have b: "\<not> DeepEqual (VInt 1) (VString ''1'')"
    by (simp add: DeepEqual_def)
  from a b Equal_NotEqual_follow_DeepEqual [of ptr1 ptr2 0 "[]" test_site world0]
    Equal_NotEqual_follow_DeepEqual [of "VInt 1" "VString ''1''" 0 "[]" test_site world0]
  show ?thesis by simp
qed

text \<open>
  Claim C5. \<^verbatim>\<open>NoError(t, err)\<close> reports a failure if and only if \<open>err\<close> is not nil, and
  reports nothing otherwise; \<^verbatim>\<open>Error(t, err)\<close> reports a failure if and only if \<open>err\<close> is
  nil, and reports nothing otherwise.
\<close>

theorem NoError_Error_follow_nil:
  "(reports_failure t s (NoError t err msg stk s) \<longleftrightarrow> err \<noteq> VNil) \<and>
   (NoError t err msg stk s = Return s \<longleftrightarrow> err = VNil) \<and>
   (reports_failure t s (Error t err msg stk s) \<longleftrightarrow> err = VNil) \<and>
   (Error t err msg stk s = Return s \<longleftrightarrow> err \<noteq> VNil)"
  by (simp add: NoError_def Error_def reports_failure_Errorf not_reports_failure_Return
      Errorf_not_silent)

text \<open>The four cases at the nil error and at an error value.\<close>

theorem NoError_Error_follow_nil_witness:
  "NoError 0 VNil [] test_site world0 = Return world0 \<and>
   reports_failure 0 world0 (NoError 0 (VString ''EOF'') [] test_site world0) \<and>
   reports_failure 0 world0 (Error 0 VNil [] test_site world0) \<and>
   Error 0 (VString ''EOF'') [] test_site world0 = Return world0"
  using NoError_Error_follow_nil [of 0 world0 VNil "[]" test_site]
    NoError_Error_follow_nil [of 0 world0 "VString ''EOF''" "[]" test_site]
  by simp

text \<open>
  Claim C6. \<^verbatim>\<open>Fail\<close> marks the test failed through \<^verbatim>\<open>FailNow\<close> and stops the body: whatever
  follows it in the body does not run. When their assertion fails, \<^verbatim>\<open>Equal\<close>, \<^verbatim>\<open>NotEqual\<close>,
  \<^verbatim>\<open>True\<close>, \<^verbatim>\<open>False\<close>, \<^verbatim>\<open>Contains\<close>, \<^verbatim>\<open>NoError\<close>, \<^verbatim>\<open>Error\<close>, \<^verbatim>\<open>Assert\<close> and \<^verbatim>\<open>CheckEquals\<close>
  mark the test failed through \<^verbatim>\<open>Fail\<close> only and return, so that the rest of the body
  runs.
\<close>

theorem Fail_stops_others_go_on:
  "fails_and_stops t k (Fail t m stk s) \<and>
   (\<not> DeepEqual a b \<longrightarrow> fails_and_goes_on t k s (Equal t a b msg stk s)) \<and>
   (DeepEqual a b \<longrightarrow> fails_and_goes_on t k s (NotEqual t a b msg stk s)) \<and>
   (\<not> c \<longrightarrow> fails_and_goes_on t k s (True_check t c msg stk s)) \<and>
   (c \<longrightarrow> fails_and_goes_on t k s (False_check t c msg stk s)) \<and>
   (\<not> strings_Contains haystack needle \<longrightarrow>
      fails_and_goes_on t k s (Contains t haystack needle msg stk s)) \<and>
   (err \<noteq> VNil \<longrightarrow> fails_and_goes_on t k s (NoError t err msg stk s)) \<and>
   (err = VNil \<longrightarrow> fails_and_goes_on t k s (Error t err msg stk s)) \<and>
   (\<not> c \<longrightarrow> fails_and_goes_on t k s (Assert t c v stk s)) \<and>
   (iface_eq expected actual = Inr False \<longrightarrow>
      fails_and_goes_on t k s (CheckEquals t actual expected v stk s))"
proof -
  have "fails_and_stops t k (Fail t m stk s)"
    by (simp add: fails_and_stops_def Fail_def t_FailNow_def t_Fail_def fmt_Printf_def
        and_then_def Let_def split: prod.splits)
  moreover have "fails_and_goes_on t k s (Assert t c v stk s)" if "\<not> c"
    using that by (simp add: fails_and_goes_on_def Assert_def t_Fail_def fmt_Printf_def
        and_then_def Let_def split: prod.splits)
  moreover have "fails_and_goes_on t k s (CheckEquals t actual expected v stk s)"
    if "iface_eq expected actual = Inr False"
    using that by (simp add: fails_and_goes_on_def CheckEquals_def t_Fail_def fmt_Printf_def
        and_then_def Let_def split: prod.splits)
  ultimately show ?thesis
    by (simp add: Equal_def EqualValues_def NotEqual_def True_check_def False_check_def
        Contains_def NoError_def Error_def ObjectsAreEqualValues_def Errorf_goes_on)
qed

text \<open>Each helper at an input on which its assertion fails.\<close>

theorem Fail_stops_others_go_on_witness:
  "fails_and_stops 0 Return (Fail 0 ''boom'' test_site world0) \<and>
   fails_and_goes_on 0 Return world0 (Equal 0 (VInt 1) (VInt 2) [] test_site world0) \<and>
   fails_and_goes_on 0 Return world0 (NotEqual 0 (VInt 1) (VInt 1) [] test_site world0) \<and>
   fails_and_goes_on 0 Return world0 (True_check 0 False [] test_site world0) \<and>
   fails_and_goes_on 0 Return world0 (False_check 0 True [] test_site world0) \<and>
   fails_and_goes_on 0 Return world0 (Contains 0 ''hello world'' ''xyz'' [] test_site world0) \<and>
   fails_and_goes_on 0 Return world0 (NoError 0 (VString ''EOF'') [] test_site world0) \<and>
   fails_and_goes_on 0 Return world0 (Error 0 VNil [] test_site world0) \<and>
   fails_and_goes_on 0 Return world0 (Assert 0 False (VString ''m'') test_site world0) \<and>
   fails_and_goes_on 0 Return world0
     (CheckEquals 0 (VInt 1) (VInt 2) (VString ''m'') test_site world0)"
proof -
  have h: "\<not> DeepEqual (VInt 1) (VInt 2)" "DeepEqual (VInt 1) (VInt 1)"
    "\<not> strings_Contains ''hello world'' ''xyz''" "VString ''EOF'' \<noteq> VNil"
    "iface_eq (VInt 2) (VInt 1) = Inr False"
    by (simp_all add: DeepEqual_def iface_eq_def)
  from h
    Fail_stops_others_go_on [where a = "VInt 1" and b = "VInt 2" and c = False
      and haystack = "''hello world''" and needle = "''xyz''" and err = "VString ''EOF''"
      and expected = "VInt 2" and actual = "VInt 1" and t = 0 and k = Return and s = world0
      and m = "''boom''" and stk = test_site and msg = "[]" and v = "VString ''m''"]
    Fail_stops_others_go_on [where a = "VInt 1" and b = "VInt 1" and c = True
      and haystack = "''hello world''" and needle = "''xyz''" and err = VNil
      and expected = "VInt 2" and actual = "VInt 1" and t = 0 and k = Return and s = world0
      and m = "''boom''" and stk = test_site and msg = "[]" and v = "VString ''m''"]
  show ?thesis by simp
qed

text \<open>
  Claim C7, as amended. When \<open>t\<close> points to a running test (and the values compared are
  finite, as all values here are), no helper other than \<^verbatim>\<open>CheckEquals\<close> panics: deep
  equality is total, and the slice of the file name stays within bounds; \<^verbatim>\<open>CheckEquals\<close>
  panics exactly when both values are non-nil, of the same dynamic type, and that type
  is not comparable. A comparison of two values of different dynamic types is reported
  as a mismatch by \<^verbatim>\<open>Equal\<close> and by \<^verbatim>\<open>CheckEquals\<close>, and passes \<^verbatim>\<open>NotEqual\<close>. When \<open>t\<close> is
  nil or points to a test that has completed, a helper panics exactly when its
  assertion fails (\<^verbatim>\<open>Fail\<close>: always), in its call of \<^verbatim>\<open>t.Fail()\<close> or \<^verbatim>\<open>t.FailNow()\<close>.
\<close>

theorem helpers_crash_only_off_a_running_test:
  "(is_running p \<longrightarrow>
      \<not> crashes (Equal_at p a b msg stk s) \<and>
      \<not> crashes (EqualValues_at p a b msg stk s) \<and>
      \<not> crashes (NotEqual_at p a b msg stk s) \<and>
      \<not> crashes (NoError_at p err msg stk s) \<and>
      \<not> crashes (Error_at p err msg stk s) \<and>
      \<not> crashes (True_at p c msg stk s) \<and>
      \<not> crashes (False_at p c msg stk s) \<and>
      \<not> crashes (Contains_at p haystack needle msg stk s) \<and>
      \<not> crashes (Assert_at p c v stk s) \<and>
      \<not> crashes (Fail_at p m stk s) \<and>
      (crashes (CheckEquals_at p a b v stk s) \<longleftrightarrow>
         a \<noteq> VNil \<and> b \<noteq> VNil \<and> dyn_type b = dyn_type a \<and> \<not> comparable b)) \<and>
   (dyn_type a \<noteq> dyn_type b \<longrightarrow>
      reports_failure h s (Equal_at (RunningT h) a b msg stk s) \<and>
      NotEqual_at p a b msg stk s = Return s \<and>
      reports_failure h s (CheckEquals_at (RunningT h) a b v stk s)) \<and>
   (\<not> is_running p \<longrightarrow>
      (crashes (Equal_at p a b msg stk s) \<longleftrightarrow> \<not> DeepEqual a b) \<and>
      (crashes (EqualValues_at p a b msg stk s) \<longleftrightarrow> \<not> DeepEqual a b) \<and>
      (crashes (NotEqual_at p a b msg stk s) \<longleftrightarrow> DeepEqual a b) \<and>
      (crashes (NoError_at p err msg stk s) \<longleftrightarrow> err \<noteq> VNil) \<and>
      (crashes (Error_at p err msg stk s) \<longleftrightarrow> err = VNil) \<and>
      (crashes (True_at p c msg stk s) \<longleftrightarrow> \<not> c) \<and>
      (crashes (False_at p c msg stk s) \<longleftrightarrow> c) \<and>
      (crashes (Contains_at p haystack needle msg stk s) \<longleftrightarrow>
         \<not> strings_Contains haystack needle) \<and>
      (crashes (Assert_at p c v stk s) \<longleftrightarrow> \<not> c) \<and>
      crashes (Fail_at p m stk s) \<and>
      (crashes (CheckEquals_at p a b v stk s) \<longleftrightarrow> iface_eq b a \<noteq> Inr True))"
proof -
  have e: "crashes (Equal_at p a b msg stk s) \<longleftrightarrow> \<not> is_running p \<and> \<not> DeepEqual a b"
    "crashes (EqualValues_at p a b msg stk s) \<longleftrightarrow> \<not> is_running p \<and> \<not> DeepEqual a b"
    "crashes (NotEqual_at p a b msg stk s) \<longleftrightarrow> \<not> is_running p \<and> DeepEqual a b"
    "crashes (NoError_at p err msg stk s) \<longleftrightarrow> \<not> is_running p \<and> err \<noteq> VNil"
    "crashes (Error_at p err msg stk s) \<longleftrightarrow> \<not> is_running p \<and> err = VNil"
    "crashes (True_at p c msg stk s) \<longleftrightarrow> \<not> is_running p \<and> \<not> c"
    "crashes (False_at p c msg stk s) \<longleftrightarrow> \<not> is_running p \<and> c"
    "crashes (Contains_at p haystack needle msg stk s) \<longleftrightarrow>
       \<not> is_running p \<and> \<not> strings_Contains haystack needle"
    by (auto simp: Equal_at_def EqualValues_at_def NotEqual_at_def NoError_at_def Error_at_def
        True_at_def False_at_def Contains_at_def ObjectsAreEqualValues_def crashes_Errorf_at)
  have ce: "crashes (CheckEquals_at p a b v stk s) \<longleftrightarrow> iface_eq b a \<noteq> Inr True"
    if "\<not> is_running p"
    using that by (cases "iface_eq b a") (auto simp: crashes_CheckEquals_at)
  have mismatch: "reports_failure h s (Equal_at (RunningT h) a b msg stk s) \<and>
      NotEqual_at p a b msg stk s = Return s \<and>
      reports_failure h s (CheckEquals_at (RunningT h) a b v stk s)"
    if "dyn_type a \<noteq> dyn_type b"
    using dyn_type_differs_not_DeepEqual [OF that] dyn_type_differs_iface_eq [OF that]
    by (simp add: helpers_at_running Equal_def EqualValues_def NotEqual_at_def
        ObjectsAreEqualValues_def reports_failure_Errorf CheckEquals_reports)
  from e ce mismatch show ?thesis
    by (simp add: crashes_Assert_at crashes_Fail_at crashes_CheckEquals_at iface_eq_panics)
qed

text \<open>
  On a running test: an integer against a string is a reported mismatch for \<^verbatim>\<open>Equal\<close> and
  \<^verbatim>\<open>CheckEquals\<close>; two slices of the same type are compared without a panic by \<^verbatim>\<open>Equal\<close>,
  and make \<^verbatim>\<open>CheckEquals\<close> panic. On a nil pointer: \<^verbatim>\<open>Equal\<close> panics on 1 against 2 and
  returns on 1 against 1.
\<close>

theorem helpers_crash_only_off_a_running_test_witness:
  "reports_failure 0 world0 (Equal_at (RunningT 0) (VInt 1) (VString ''1'') [] test_site world0) \<and>
   NotEqual_at (RunningT 0) (VInt 1) (VString ''1'') [] test_site world0 = Return world0 \<and>
   reports_failure 0 world0
     (CheckEquals_at (RunningT 0) (VInt 1) (VString ''1'') (VString ''m'') test_site world0) \<and>
   \<not> crashes (Equal_at (RunningT 0) (VSlice TInt [VInt 1]) (VSlice TInt [VInt 1]) []
                 test_site world0) \<and>
   crashes (CheckEquals_at (RunningT 0) (VSlice TInt [VInt 1]) (VSlice TInt [VInt 1])
              (VString ''m'') test_site world0) \<and>
   crashes (Equal_at NilT (VInt 1) (VInt 2) [] test_site world0) \<and>
   \<not> crashes (Equal_at NilT (VInt 1) (VInt 1) [] test_site world0)"
proof -
  have r: "is_running (RunningT 0)" "\<not> is_running NilT"
    by (simp_all add: is_running_def)
  have d: "\<not> DeepEqual (VInt 1) (VInt 2)" "DeepEqual (VInt 1) (VInt 1)"
    by (simp_all add: DeepEqual_def)
  from r d
    helpers_crash_only_off_a_running_test [where p = "RunningT 0" and h = 0 and a = "VInt 1"
      and b = "VString ''1''" and s = world0 and msg = "[]" and stk = test_site
      and v = "VString ''m''"]
    helpers_crash_only_off_a_running_test [where p = "RunningT 0" and h = 0
      and a = "VSlice TInt [VInt 1]" and b = "VSlice TInt [VInt 1]" and s = world0
      and msg = "[]" and stk = test_site and v = "VString ''m''"]
    helpers_crash_only_off_a_running_test [where p = NilT and a = "VInt 1" and b = "VInt 2"
      and s = world0 and msg = "[]" and stk = test_site]
    helpers_crash_only_off_a_running_test [where p = NilT and a = "VInt 1" and b = "VInt 1"
      and s = world0 and msg = "[]" and stk = test_site]
  show ?thesis by simp
qed

text \<open>
  Claim C7 as stated fails: "every input" includes a nil \<^verbatim>\<open>*testing.T\<close> and the context of
  a test that has completed. With a nil pointer, \<^verbatim>\<open>Equal\<close> on an integer and a string
  prints its line and then panics in \<^verbatim>\<open>t.Fail()\<close> instead of reporting a mismatch;
  \<^verbatim>\<open>Fail\<close> panics in \<^verbatim>\<open>t.FailNow()\<close>; and on a completed test \<^verbatim>\<open>True\<close> panics on \<^verbatim>\<open>false\<close>.
\<close>

theorem helpers_crash_on_nil_or_completed_test:
  "Equal_at NilT (VInt 1) (VString ''1'') [] test_site world0 =
     Panics (Panic ''runtime error: invalid memory address or nil pointer dereference'') \<and>
   Fail_at NilT ''boom'' test_site world0 =
     Panics (Panic ''runtime error: invalid memory address or nil pointer dereference'') \<and>
   True_at (CompletedT 0) False [] test_site world0 =
     Panics (Panic ''Fail in goroutine after test has completed'') \<and>
   crashes (Equal_at NilT (VInt 1) (VString ''1'') [] test_site world0)"
  by (simp add: Equal_at_def EqualValues_at_def Fail_at_def True_at_def Errorf_at_def
      ptr_Fail_def ptr_FailNow_def ObjectsAreEqualValues_def DeepEqual_def runtime_Caller_def
      test_site_def crashes_def)

text \<open>
  Claim C9. \<^verbatim>\<open>CheckEquals\<close> decides by the \<^verbatim>\<open>!=\<close> of the two interface values, not by deep
  equality: it reports a mismatch exactly when that comparison yields "different". Two
  pointers at different addresses to the same value are deeply equal, so \<^verbatim>\<open>Equal\<close>
  reports nothing on them, and \<^verbatim>\<open>CheckEquals\<close> reports a mismatch.
\<close>

theorem CheckEquals_compares_identity:
  "(reports_failure t s (CheckEquals t a b v stk s) \<longleftrightarrow> iface_eq b a = Inr False) \<and>
   (p \<noteq> q \<longrightarrow>
      DeepEqual (VPtr T p x) (VPtr T q x) \<and>
      reports_failure t s (CheckEquals t (VPtr T p x) (VPtr T q x) v stk s) \<and>
      Equal t (VPtr T p x) (VPtr T q x) msg stk s = Return s)"
proof -
  have d: "DeepEqual (VPtr T p x) (VPtr T q x)"
    by (simp add: DeepEqual_def deepValueEqual_refl)
  have "iface_eq (VPtr T q x) (VPtr T p x) = Inr False" if "p \<noteq> q"
    using that by (auto simp: iface_eq_def)
  with d show ?thesis
    by (simp add: CheckEquals_reports Equal_def EqualValues_def ObjectsAreEqualValues_def)
qed

text \<open>
  The two example pointers, at addresses 1 and 2, to equal structs. The structs
  themselves, compared as values, are equal for \<^verbatim>\<open>==\<close>.
\<close>

theorem CheckEquals_compares_identity_witness:
  "DeepEqual ptr1 ptr2 \<and>
   reports_failure 0 world0 (CheckEquals 0 ptr1 ptr2 (VString ''m'') test_site world0) \<and>
   Equal 0 ptr1 ptr2 [] test_site world0 = Return world0 \<and>
   iface_eq struct_S struct_S = Inr True"
proof -
  have "iface_eq struct_S struct_S = Inr True"
    by (simp add: iface_eq_def struct_S_def)
  with CheckEquals_compares_identity [where p = 1 and q = 2 and T = "TStruct ''S''"
      and x = struct_S and t = 0 and s = world0 and v = "VString ''m''" and stk = test_site
      and msg = "[]" and a = ptr1 and b = ptr2]
  show ?thesis by (simp add: ptr1_def ptr2_def iface_eq_def)
qed

text \<open>
  Claim C10 does not hold of the code. A test at line 10 of its file compares 1 with 2.
  Called through \<^verbatim>\<open>EqualValues\<close>, the failure is printed with the test's own file and
  line. Called through \<^verbatim>\<open>Equal\<close>, which adds a frame between the test and \<^verbatim>\<open>Errorf\<close>, the
  same failure is printed with line 44 of \<^verbatim>\<open>assert.go\<close>, the place where \<^verbatim>\<open>Equal\<close> calls
  \<^verbatim>\<open>EqualValues\<close>.
\<close>

theorem Equal_reports_its_own_line:
  "printed_lines (Equal 0 (VInt 1) (VInt 2) [] test_site world0) =
     [Printf ''%s:%d %s'' [ArgStr ''assert.go'', ArgInt 44,
        ArgSprintf ''%v unexpectedly not equal %v: %v''
          [ArgVal (VInt 1), ArgVal (VInt 2), ArgStrs []]]] \<and>
   printed_lines (EqualValues 0 (VInt 1) (VInt 2) [] test_site world0) =
     [Printf ''%s:%d %s'' [ArgStr ''demo_test.go'', ArgInt 10,
        ArgSprintf ''%v unexpectedly not equal %v: %v''
          [ArgVal (VInt 1), ArgVal (VInt 2), ArgStrs []]]]"
  by (simp add: helper_eval test_site_def demo_test_go_def world0_def printed_lines_def)

end
